theory Spec2Isabelle
  imports Main
begin

section \<open>Python values, dictionaries and exceptions\<close>

text \<open>
  The user documents, the token payloads and the identities that the backend passes
  around are Python dictionaries from string keys to JSON values. A dictionary is a
  partial map; a missing key is \<open>None\<close> of the option type, the Python value \<open>None\<close>
  is \<open>VNone\<close>. Strings are ASCII strings.
\<close>

datatype pyval = VNone | VBool bool | VInt int | VStr string | VList "pyval list"

type_synonym pydict = "string \<Rightarrow> pyval option"

text \<open>\<open>d.get(k)\<close> and \<open>d.get(k, default)\<close>.\<close>

definition dget :: "pydict \<Rightarrow> string \<Rightarrow> pyval" where
  "dget d k = (case d k of None \<Rightarrow> VNone | Some v \<Rightarrow> v)"

definition dget_default :: "pydict \<Rightarrow> string \<Rightarrow> pyval \<Rightarrow> pyval" where
  "dget_default d k dflt = (case d k of None \<Rightarrow> dflt | Some v \<Rightarrow> v)"

text \<open>\<open>d.setdefault(k, v)\<close>: writes only when the key is missing.\<close>

definition setdefault :: "pydict \<Rightarrow> string \<Rightarrow> pyval \<Rightarrow> pydict" where
  "setdefault d k v = (case d k of None \<Rightarrow> d(k \<mapsto> v) | Some _ \<Rightarrow> d)"

text \<open>Python truthiness (\<open>bool(x)\<close>, \<open>if x\<close>, \<open>not x\<close>, \<open>x or y\<close>).\<close>

fun truthy :: "pyval \<Rightarrow> bool" where
  "truthy VNone = False"
| "truthy (VBool b) = b"
| "truthy (VInt i) = (i \<noteq> 0)"
| "truthy (VStr s) = (s \<noteq> [])"
| "truthy (VList xs) = (xs \<noteq> [])"

definition py_or :: "pyval \<Rightarrow> pyval \<Rightarrow> pyval" where
  "py_or a b = (if truthy a then a else b)"

fun is_list :: "pyval \<Rightarrow> bool" where
  "is_list (VList xs) = True"
| "is_list _ = False"

datatype exn =
    HTTPException nat string
  | ValueError string
  | TypeError string
  | AttributeError string
  | JWTError string
  | CosmosError string
  | ExpiredSignatureError
  | InvalidAudienceError
  | InvalidIssuerError
  | PyJWTError string
  | KeyError string

text \<open>\<open>str.lower()\<close> and \<open>str.strip()\<close> on ASCII strings.\<close>

definition lower_chr :: "char \<Rightarrow> char" where
  "lower_chr c =
     (case map_of (zip ''ABCDEFGHIJKLMNOPQRSTUVWXYZ'' ''abcdefghijklmnopqrstuvwxyz'') c of
        None \<Rightarrow> c | Some d \<Rightarrow> d)"

definition lower :: "string \<Rightarrow> string" where
  "lower s = map lower_chr s"

definition is_space :: "char \<Rightarrow> bool" where
  "is_space c = (c \<in> set [CHR '' '', CHR 0x09, CHR 0x0A, CHR 0x0B, CHR 0x0C, CHR 0x0D,
                           CHR 0x1C, CHR 0x1D, CHR 0x1E, CHR 0x1F])"

definition strip :: "string \<Rightarrow> string" where
  "strip s = rev (dropWhile is_space (rev (dropWhile is_space s)))"

text \<open>
  \<open>x.lower().strip()\<close> on a value taken from a dictionary: any value that is not a
  string has no method \<open>lower\<close>.
\<close>

fun lower_strip :: "pyval \<Rightarrow> exn + string" where
  "lower_strip (VStr s) = Inr (strip (lower s))"
| "lower_strip _ = Inl (AttributeError ''lower'')"

section \<open>The user store: the Cosmos auth container\<close>

text \<open>
  The container is the Azure SDK's; the repository only calls it. It is modelled as
  the list of its documents, in the order a query returns them, with the document id
  as the key: \<open>read_item\<close> and \<open>replace_item\<close> fail on an unknown id, \<open>create_item\<close>
  fails on a known one (or on a body without id), \<open>upsert_item\<close> replaces or appends.
  The service is taken to be reachable: the calls fail for these reasons only.
\<close>

type_synonym container = "pydict list"

definition has_id :: "pyval \<Rightarrow> pydict \<Rightarrow> bool" where
  "has_id i d = (d ''id'' = Some i)"

definition read_item :: "container \<Rightarrow> pyval \<Rightarrow> exn + pydict" where
  "read_item docs i =
     (case filter (has_id i) docs of
        [] \<Rightarrow> Inl (CosmosError ''NotFound'')
      | d # _ \<Rightarrow> Inr d)"

definition create_item :: "container \<Rightarrow> pydict \<Rightarrow> exn + (pydict \<times> container)" where
  "create_item docs body =
     (case body ''id'' of
        None \<Rightarrow> Inl (CosmosError ''BadRequest'')
      | Some i \<Rightarrow>
          (if \<exists>d \<in> set docs. has_id i d then Inl (CosmosError ''Conflict'')
           else Inr (body, docs @ [body])))"

definition replace_doc :: "pyval \<Rightarrow> pydict \<Rightarrow> container \<Rightarrow> container" where
  "replace_doc i body docs = map (\<lambda>d. if has_id i d then body else d) docs"

definition replace_item :: "container \<Rightarrow> pydict \<Rightarrow> exn + (pydict \<times> container)" where
  "replace_item docs body =
     (case body ''id'' of
        None \<Rightarrow> Inl (CosmosError ''BadRequest'')
      | Some i \<Rightarrow>
          (if \<exists>d \<in> set docs. has_id i d then Inr (body, replace_doc i body docs)
           else Inl (CosmosError ''NotFound'')))"

definition upsert_item :: "container \<Rightarrow> pydict \<Rightarrow> exn + (pydict \<times> container)" where
  "upsert_item docs body =
     (case body ''id'' of
        None \<Rightarrow> Inl (CosmosError ''BadRequest'')
      | Some i \<Rightarrow>
          (if \<exists>d \<in> set docs. has_id i d then Inr (body, replace_doc i body docs)
           else Inr (body, docs @ [body])))"

text \<open>
  The two point queries of \<open>CosmosDB\<close>:
  \<open>SELECT * FROM c WHERE c.type = 'user' AND c.email = @email\<close> (the parameter
  lowercased and stripped first) and the same on \<open>c.entra_oid\<close>. Both return the
  first result, or \<open>None\<close>.
\<close>

definition is_user :: "pydict \<Rightarrow> bool" where
  "is_user d = (d ''type'' = Some (VStr ''user''))"

definition first_or_none :: "pydict list \<Rightarrow> pydict option" where
  "first_or_none results = (case results of [] \<Rightarrow> None | d # _ \<Rightarrow> Some d)"

definition get_user_by_email :: "container \<Rightarrow> string \<Rightarrow> pydict option" where
  "get_user_by_email docs email =
     (let normalized_email = (if email \<noteq> [] then strip (lower email) else email)
      in first_or_none
           (filter (\<lambda>d. is_user d \<and> d ''email'' = Some (VStr normalized_email)) docs))"

definition get_user_by_entra_oid :: "container \<Rightarrow> pyval \<Rightarrow> pydict option" where
  "get_user_by_entra_oid docs entra_oid =
     first_or_none (filter (\<lambda>d. is_user d \<and> d ''entra_oid'' = Some entra_oid) docs)"

text \<open>
  \<open>CosmosDB.create_user\<close>. \<open>now\<close> is the ISO time stamp that the call reads from
  the clock. The result is the returned document and the container after the call.
\<close>

definition create_defaults :: "string \<Rightarrow> pydict \<Rightarrow> pydict" where
  "create_defaults now user_data =
     (let u1 = user_data(''type'' \<mapsto> VStr ''user'');
          u2 = setdefault u1 ''auth_method'' (dget_default u1 ''auth_method'' (VStr ''legacy''));
          u3 = setdefault u2 ''display_name'' (py_or (dget u2 ''displayName'') (dget u2 ''email''));
          u4 = setdefault u3 ''last_login'' (VStr now);
          u5 = setdefault u4 ''is_active'' (VBool True);
          u6 = setdefault u5 ''created_at'' (VStr now)
      in setdefault u6 ''updated_at'' (VStr now))"

definition create_user :: "string \<Rightarrow> container \<Rightarrow> pydict \<Rightarrow> exn + (pydict \<times> container)" where
  "create_user now docs user_data0 =
     (case (if truthy (dget user_data0 ''email'')
            then (case lower_strip (dget user_data0 ''email'') of
                    Inl e \<Rightarrow> Inl e
                  | Inr s \<Rightarrow> Inr (user_data0(''email'' \<mapsto> VStr s)))
            else Inr user_data0) of
        Inl e \<Rightarrow> Inl e
      | Inr user_data \<Rightarrow>
          (let email = dget user_data ''email''; entra_oid = dget user_data ''entra_oid'';
               by_email = (case email of
                             VStr s \<Rightarrow> (if s \<noteq> [] then get_user_by_email docs s else None)
                           | _ \<Rightarrow> None)
           in case by_email of
                Some existing_user \<Rightarrow> Inr (existing_user, docs)
              | None \<Rightarrow>
                  (case (if truthy entra_oid then get_user_by_entra_oid docs entra_oid else None) of
                     Some existing_user \<Rightarrow> Inr (existing_user, docs)
                   | None \<Rightarrow> create_item docs (create_defaults now user_data))))"

section \<open>UserManagementService\<close>

text \<open>\<open>user.pop("hashed_password", None)\<close>.\<close>

definition pop_hashed_password :: "pydict \<Rightarrow> pydict" where
  "pop_hashed_password u = u(''hashed_password'' := None)"

definition get_user :: "container \<Rightarrow> pyval \<Rightarrow> pydict option" where
  "get_user docs user_id =
     (case read_item docs user_id of
        Inl e \<Rightarrow> None
      | Inr user \<Rightarrow> Some (pop_hashed_password user))"

text \<open>
  The query that \<open>list_users\<close> builds: the documents of type user, whose email
  contains \<open>filter\<close> when one is given, whose role and auth method are the given ones
  when given, from offset \<open>skip\<close>, at most \<open>limit\<close> of them. A negative offset or
  limit is rejected by the service.
\<close>

fun is_prefix :: "string \<Rightarrow> string \<Rightarrow> bool" where
  "is_prefix [] ys = True"
| "is_prefix (x # xs) [] = False"
| "is_prefix (x # xs) (y # ys) = (x = y \<and> is_prefix xs ys)"

fun contains_str :: "string \<Rightarrow> string \<Rightarrow> bool" where
  "contains_str [] sub = (sub = [])"
| "contains_str (c # cs) sub = (is_prefix sub (c # cs) \<or> contains_str cs sub)"

definition email_contains :: "pydict \<Rightarrow> string \<Rightarrow> bool" where
  "email_contains d sub = (case d ''email'' of Some (VStr s) \<Rightarrow> contains_str s sub | _ \<Rightarrow> False)"

definition list_users_match :: "string \<Rightarrow> string \<Rightarrow> string \<Rightarrow> pydict \<Rightarrow> bool" where
  "list_users_match filter_str role auth_method d =
     (is_user d
      \<and> (filter_str = [] \<or> email_contains d filter_str)
      \<and> (role = [] \<or> d ''role'' = Some (VStr role))
      \<and> (auth_method = [] \<or> d ''auth_method'' = Some (VStr auth_method)))"

definition list_users ::
  "container \<Rightarrow> string \<Rightarrow> string \<Rightarrow> string \<Rightarrow> int \<Rightarrow> int \<Rightarrow> exn + pydict list" where
  "list_users docs filter_str role auth_method skip limit =
     (if skip < 0 \<or> limit < 0 then Inl (CosmosError ''BadRequest'')
      else
        (let users = take (nat limit) (drop (nat skip)
                       (filter (list_users_match filter_str role auth_method) docs))
         in Inr (map pop_hashed_password users)))"

section \<open>The process state\<close>

text \<open>
  Python dictionaries are objects: the user record cache, the authentication cache and
  the callers hold references to the same dictionary, and the resolvers update the
  dictionary they got from the cache in place. The state therefore has a heap of
  dictionaries, a map from addresses to dictionaries with the next free address; a
  document that a query of the container returns is a fresh dictionary. The state also logs every round trip to the
  user store and every task handed to the event loop with \<open>asyncio.create_task\<close>
  (tasks run after the call that schedules them). The hit and miss counters of the
  caches are left out. Clock readings are whole seconds, and the readings that one
  call makes are taken to be the same reading.
\<close>

record centry =
  entry_data :: "nat option"
  entry_timestamp :: int
  entry_ttl :: int

record aentry =
  cached_identity :: nat
  cached_at :: int

datatype store_op =
    QueryEmail string
  | QueryOid pyval
  | ReadItem pyval
  | CreateUser pydict
  | UpdateUser pydict
  | ReplaceItem pydict

datatype task =
    BackgroundRefresh string string string
  | CleanupUserLock string

record world =
  auth_container :: container
  heap :: "nat \<Rightarrow> pydict"
  next_addr :: nat
  user_cache :: "string \<Rightarrow> centry option"
  auth_cache :: "string \<Rightarrow> aentry option"
  store_log :: "store_op list"
  tasks :: "task list"

definition alloc :: "pydict \<Rightarrow> world \<Rightarrow> nat \<times> world" where
  "alloc d w = (next_addr w, w\<lparr>heap := (heap w)(next_addr w := d), next_addr := Suc (next_addr w)\<rparr>)"

text \<open>The store calls of \<open>CosmosDB\<close> on the state, each logged as one round trip.\<close>

definition db_get_user_by_email :: "string \<Rightarrow> world \<Rightarrow> pydict option \<times> world" where
  "db_get_user_by_email email w =
     (get_user_by_email (auth_container w) email, w\<lparr>store_log := store_log w @ [QueryEmail email]\<rparr>)"

definition db_get_user_by_entra_oid :: "pyval \<Rightarrow> world \<Rightarrow> pydict option \<times> world" where
  "db_get_user_by_entra_oid entra_oid w =
     (get_user_by_entra_oid (auth_container w) entra_oid,
      w\<lparr>store_log := store_log w @ [QueryOid entra_oid]\<rparr>)"

section \<open>AzureCachedUserService: the user record cache\<close>

text \<open>
  \<open>_get_cache_key\<close>: the lookup type, a colon, and the first 16 hex digits of the
  SHA-256 digest of \<open>f"{lookup_type}:{value}"\<close>. The digest of the formatted value is
  the library's; it is the parameter \<open>digest\<close>.
\<close>

type_synonym digest = "string \<Rightarrow> pyval \<Rightarrow> string"

definition get_cache_key :: "digest \<Rightarrow> string \<Rightarrow> pyval \<Rightarrow> string" where
  "get_cache_key digest lookup_type v = lookup_type @ '':'' @ take 16 (digest lookup_type v)"

definition default_ttl :: int where
  "default_ttl = 900"

definition is_cache_valid :: "int \<Rightarrow> centry \<Rightarrow> bool" where
  "is_cache_valid current_time cache_entry =
     (current_time - entry_timestamp cache_entry < entry_ttl cache_entry)"

text \<open>\<open>age > ttl * 0.8\<close>, in whole numbers.\<close>

definition should_background_refresh :: "int \<Rightarrow> centry \<Rightarrow> bool" where
  "should_background_refresh current_time cache_entry =
     (5 * (current_time - entry_timestamp cache_entry) > 4 * entry_ttl cache_entry)"

definition ttl_or_default :: "int option \<Rightarrow> int" where
  "ttl_or_default t = (case t of None \<Rightarrow> default_ttl
                        | Some n \<Rightarrow> if n = 0 then default_ttl else n)"

text \<open>
  The three lookups \<open>get_user_by_entra_oid\<close>, \<open>get_user_by_email\<close> and
  \<open>get_user_by_id\<close> of the service are one piece of code, copied, that differs in the
  lookup type, in the cache key and in the store query. \<open>cached_lookup\<close> is that code.
  A valid entry is a hit, also when it holds \<open>None\<close>; on a hit older than 80% of its
  time to live a background refresh is scheduled. Otherwise the store is queried and
  the result, also \<open>None\<close>, is cached; when the query raises, the lookup returns
  \<open>None\<close> and caches nothing.
\<close>

definition cached_lookup ::
  "string \<Rightarrow> string \<Rightarrow> string \<Rightarrow> (world \<Rightarrow> (exn + pydict option) \<times> world) \<Rightarrow> int
    \<Rightarrow> int option \<Rightarrow> world \<Rightarrow> nat option \<times> world" where
  "cached_lookup lookup_type identifier cache_key fetch current_time ttl_arg w =
     (case (case user_cache w cache_key of
              None \<Rightarrow> None
            | Some cache_entry \<Rightarrow>
                if is_cache_valid current_time cache_entry then Some cache_entry else None) of
        Some cache_entry \<Rightarrow>
          (entry_data cache_entry,
           if should_background_refresh current_time cache_entry
           then w\<lparr>tasks := tasks w @ [BackgroundRefresh lookup_type identifier cache_key]\<rparr>
           else w)
      | None \<Rightarrow>
          (case fetch w of
             (Inl e, w1) \<Rightarrow> (None, w1)
           | (Inr None, w1) \<Rightarrow>
               (None,
                w1\<lparr>user_cache := (user_cache w1)(cache_key \<mapsto>
                     \<lparr>entry_data = None, entry_timestamp = current_time,
                      entry_ttl = ttl_or_default ttl_arg\<rparr>)\<rparr>)
           | (Inr (Some user), w1) \<Rightarrow>
               (case alloc user w1 of
                  (a, w2) \<Rightarrow>
                    (Some a,
                     w2\<lparr>user_cache := (user_cache w2)(cache_key \<mapsto>
                          \<lparr>entry_data = Some a, entry_timestamp = current_time,
                           entry_ttl = ttl_or_default ttl_arg\<rparr>)\<rparr>))))"

definition fetch_user_by_entra_oid :: "string \<Rightarrow> world \<Rightarrow> (exn + pydict option) \<times> world" where
  "fetch_user_by_entra_oid entra_oid w =
     (case db_get_user_by_entra_oid (VStr entra_oid) w of (r, w1) \<Rightarrow> (Inr r, w1))"

definition fetch_user_by_email :: "string \<Rightarrow> world \<Rightarrow> (exn + pydict option) \<times> world" where
  "fetch_user_by_email email w =
     (case db_get_user_by_email email w of (r, w1) \<Rightarrow> (Inr r, w1))"

text \<open>
  \<open>_fetch_user_by_id\<close> calls \<open>cosmos_db.get_user_by_id\<close>, a method that \<open>CosmosDB\<close>
  does not have: the call raises \<open>AttributeError\<close> before any round trip.
\<close>

definition fetch_user_by_id :: "string \<Rightarrow> world \<Rightarrow> (exn + pydict option) \<times> world" where
  "fetch_user_by_id user_id w = (Inl (AttributeError ''get_user_by_id''), w)"

definition cached_get_user_by_entra_oid ::
  "digest \<Rightarrow> string \<Rightarrow> int \<Rightarrow> int option \<Rightarrow> world \<Rightarrow> nat option \<times> world" where
  "cached_get_user_by_entra_oid digest entra_oid =
     cached_lookup ''entra_oid'' entra_oid (get_cache_key digest ''entra_oid'' (VStr entra_oid))
       (fetch_user_by_entra_oid entra_oid)"

definition cached_get_user_by_email ::
  "digest \<Rightarrow> string \<Rightarrow> int \<Rightarrow> int option \<Rightarrow> world \<Rightarrow> nat option \<times> world" where
  "cached_get_user_by_email digest email =
     cached_lookup ''email'' email (get_cache_key digest ''email'' (VStr (lower email)))
       (fetch_user_by_email email)"

definition cached_get_user_by_id ::
  "digest \<Rightarrow> string \<Rightarrow> int \<Rightarrow> int option \<Rightarrow> world \<Rightarrow> nat option \<times> world" where
  "cached_get_user_by_id digest user_id =
     cached_lookup ''user_id'' user_id (get_cache_key digest ''user_id'' (VStr user_id))
       (fetch_user_by_id user_id)"

text \<open>\<open>invalidate_user_cache(identifier, lookup_type)\<close>: deletes the entry of one key.\<close>

definition invalidate_user_cache :: "digest \<Rightarrow> pyval \<Rightarrow> string \<Rightarrow> world \<Rightarrow> world" where
  "invalidate_user_cache digest identifier lookup_type w =
     w\<lparr>user_cache := (user_cache w)(get_cache_key digest lookup_type identifier := None)\<rparr>"

text \<open>
  \<open>cache_user(user_data)\<close>: one entry, written under the id, the lowercased email and
  the Entra object id, each when the record has it. The email of a record that is not
  a string has no \<open>lower\<close>: the call raises after the write under the id.
\<close>

definition cache_user :: "digest \<Rightarrow> int \<Rightarrow> nat \<Rightarrow> world \<Rightarrow> exn option \<times> world" where
  "cache_user digest current_time a w =
     (let user_data = heap w a;
          cache_entry = \<lparr>entry_data = Some a, entry_timestamp = current_time, entry_ttl = default_ttl\<rparr>
      in if dom user_data = {} then (None, w)
         else
           (let w1 = (if truthy (dget user_data ''id'')
                      then w\<lparr>user_cache := (user_cache w)
                             (get_cache_key digest ''user_id'' (dget user_data ''id'') \<mapsto> cache_entry)\<rparr>
                      else w)
            in if truthy (dget user_data ''email'')
               then (case dget user_data ''email'' of
                       VStr s \<Rightarrow>
                         (let w2 = w1\<lparr>user_cache := (user_cache w1)
                                    (get_cache_key digest ''email'' (VStr (lower s)) \<mapsto> cache_entry)\<rparr>
                          in (None,
                              if truthy (dget user_data ''entra_oid'')
                              then w2\<lparr>user_cache := (user_cache w2)
                                     (get_cache_key digest ''entra_oid'' (dget user_data ''entra_oid'')
                                        \<mapsto> cache_entry)\<rparr>
                              else w2))
                     | _ \<Rightarrow> (Some (AttributeError ''lower''), w1))
               else (None,
                     if truthy (dget user_data ''entra_oid'')
                     then w1\<lparr>user_cache := (user_cache w1)
                            (get_cache_key digest ''entra_oid'' (dget user_data ''entra_oid'')
                               \<mapsto> cache_entry)\<rparr>
                     else w1)))"

section \<open>Store calls on the process state\<close>

text \<open>
  \<open>CosmosDB.create_user\<close> and both forms of \<open>CosmosDB.update_user\<close>, and the direct
  \<open>replace_item\<close> of the container, on the state. The form \<open>update_user(user_data)\<close>
  sets \<open>updated_at\<close> in the dictionary it is given and upserts it; the caller's
  dictionary is the one changed, so the function also returns it.
\<close>

definition db_create_user :: "string \<Rightarrow> pydict \<Rightarrow> world \<Rightarrow> (exn + pydict) \<times> world" where
  "db_create_user now_iso user_data w =
     (case create_user now_iso (auth_container w) user_data of
        Inl e \<Rightarrow> (Inl e, w\<lparr>store_log := store_log w @ [CreateUser user_data]\<rparr>)
      | Inr (created_user, docs') \<Rightarrow>
          (Inr created_user,
           w\<lparr>auth_container := docs', store_log := store_log w @ [CreateUser user_data]\<rparr>))"

definition db_update_user :: "string \<Rightarrow> pydict \<Rightarrow> world \<Rightarrow> (exn + pydict) \<times> world" where
  "db_update_user now_iso user_data0 w =
     (let user_data = user_data0(''updated_at'' \<mapsto> VStr now_iso)
      in case upsert_item (auth_container w) user_data of
           Inl e \<Rightarrow> (Inl e, w\<lparr>store_log := store_log w @ [UpdateUser user_data]\<rparr>)
         | Inr (updated_user, docs') \<Rightarrow>
             (Inr user_data,
              w\<lparr>auth_container := docs', store_log := store_log w @ [UpdateUser user_data]\<rparr>))"

definition db_replace_item :: "pydict \<Rightarrow> world \<Rightarrow> (exn + pydict) \<times> world" where
  "db_replace_item body w =
     (case replace_item (auth_container w) body of
        Inl e \<Rightarrow> (Inl e, w\<lparr>store_log := store_log w @ [ReplaceItem body]\<rparr>)
      | Inr (replaced, docs') \<Rightarrow>
          (Inr replaced,
           w\<lparr>auth_container := docs', store_log := store_log w @ [ReplaceItem body]\<rparr>))"

text \<open>Reading and updating a dictionary on the heap; \<open>if user:\<close> on a lookup result.\<close>

definition set_obj :: "nat \<Rightarrow> pydict \<Rightarrow> world \<Rightarrow> world" where
  "set_obj a d w = w\<lparr>heap := (heap w)(a := d)\<rparr>"

definition found :: "world \<Rightarrow> nat option \<Rightarrow> bool" where
  "found w r = (case r of None \<Rightarrow> False | Some a \<Rightarrow> dom (heap w a) \<noteq> {})"

section \<open>Token payloads, requests and configuration\<close>

text \<open>
  The payload of a verified Entra ID token, with the claims that the resolvers read.
  The claims are typed as Entra ID issues them: strings, and a list of strings for
  \<open>roles\<close>; a claim that the token does not carry is \<open>None\<close>.
\<close>

record claims =
  c_oid :: "string option"
  c_preferred_username :: "string option"
  c_email :: "string option"
  c_upn :: "string option"
  c_unique_name :: "string option"
  c_roles :: "string list option"
  c_appid :: "string option"
  c_azp :: "string option"
  c_appidacr :: "string option"
  c_scp :: "string option"
  c_name :: "string option"
  c_given_name :: "string option"
  c_family_name :: "string option"

text \<open>
  A request: the bearer token, what \<open>entra_service.verify_token\<close> does with it
  (raise, or return the payload), what \<open>jwt.decode\<close> with the shared secret does with
  it (raise, or return a payload, of which the \<open>sub\<close> claim is read), and the clock of
  the call: in seconds, as ISO text, and in milliseconds as decimal text.
\<close>

record request =
  rq_token :: string
  rq_entra :: "exn + claims"
  rq_legacy :: "exn + string option"
  rq_now :: int
  rq_iso :: string
  rq_stamp :: string

datatype auth_method = LEGACY | ENTRA | BOTH

text \<open>\<open>AuthConfig\<close>, and whether the Entra service could be constructed.\<close>

record config =
  cfg_auth_method :: auth_method
  cfg_entra_service :: bool

definition is_legacy_enabled :: "config \<Rightarrow> bool" where
  "is_legacy_enabled cfg = (cfg_auth_method cfg \<in> set [LEGACY, BOTH])"

definition is_entra_enabled :: "config \<Rightarrow> bool" where
  "is_entra_enabled cfg = (cfg_auth_method cfg \<in> set [ENTRA, BOTH])"

definition get_enabled_methods :: "config \<Rightarrow> string list" where
  "get_enabled_methods cfg =
     (if is_legacy_enabled cfg then [''legacy''] else [])
     @ (if is_entra_enabled cfg then [''entra''] else [])"

definition opt_truthy :: "string option \<Rightarrow> bool" where
  "opt_truthy x = (case x of None \<Rightarrow> False | Some s \<Rightarrow> s \<noteq> [])"

definition opt_or :: "string option \<Rightarrow> string option \<Rightarrow> string option" where
  "opt_or a b = (if opt_truthy a then a else b)"

definition opt_val :: "string option \<Rightarrow> pyval" where
  "opt_val x = (case x of None \<Rightarrow> VNone | Some s \<Rightarrow> VStr s)"

text \<open>
  \<open>payload.get("preferred_username") or payload.get("email") or payload.get("upn")
  or payload.get("unique_name")\<close>.
\<close>

definition token_email :: "claims \<Rightarrow> string option" where
  "token_email payload =
     opt_or (c_preferred_username payload)
       (opt_or (c_email payload) (opt_or (c_upn payload) (c_unique_name payload)))"

definition roles_truthy :: "string list option \<Rightarrow> bool" where
  "roles_truthy roles = (case roles of None \<Rightarrow> False | Some rs \<Rightarrow> rs \<noteq> [])"

definition roles_val :: "string list \<Rightarrow> pyval" where
  "roles_val rs = VList (map VStr rs)"

text \<open>
  The test for an application token of \<open>get_current_user_cached\<close>,
  \<open>get_current_user_any\<close> and \<open>get_current_user_entra\<close>:
  \<open>bool(app_id) and (appidacr == "1" or (roles and not scp))\<close>.
\<close>

definition token_app_id :: "claims \<Rightarrow> string option" where
  "token_app_id payload = opt_or (c_appid payload) (c_azp payload)"

definition is_app_only :: "claims \<Rightarrow> bool" where
  "is_app_only payload =
     (opt_truthy (token_app_id payload)
      \<and> (strip (case c_appidacr payload of None \<Rightarrow> [] | Some s \<Rightarrow> s) = ''1''
         \<or> (roles_truthy (c_roles payload) \<and> \<not> opt_truthy (c_scp payload))))"

definition app_identity :: "claims \<Rightarrow> pydict" where
  "app_identity payload =
     (let app_id = (case token_app_id payload of None \<Rightarrow> [] | Some s \<Rightarrow> s)
      in Map.empty(''id'' \<mapsto> VStr (''app_'' @ app_id), ''email'' \<mapsto> VNone,
           ''entra_oid'' \<mapsto> VNone,
           ''roles'' \<mapsto> roles_val (case c_roles payload of None \<Rightarrow> [] | Some rs \<Rightarrow> rs),
           ''auth_type'' \<mapsto> VStr ''entra_app'', ''display_name'' \<mapsto> VStr (''app:'' @ app_id),
           ''is_active'' \<mapsto> VBool True))"

text \<open>A record has a list of roles that is not empty.\<close>

definition roles_nonempty :: "pydict \<Rightarrow> bool" where
  "roles_nonempty u = (case u ''roles'' of Some (VList (r # rs)) \<Rightarrow> True | _ \<Rightarrow> False)"

section \<open>AuthenticationCache: the authentication result cache\<close>

definition auth_ttl_seconds :: int where
  "auth_ttl_seconds = 300"

text \<open>\<open>AuthenticationCache.get\<close>: a valid entry is returned, an expired one deleted.\<close>

definition auth_cache_get :: "string \<Rightarrow> int \<Rightarrow> world \<Rightarrow> nat option \<times> world" where
  "auth_cache_get token_hash current_time w =
     (case auth_cache w token_hash of
        None \<Rightarrow> (None, w)
      | Some entry \<Rightarrow>
          if current_time - cached_at entry < auth_ttl_seconds
          then (Some (cached_identity entry), w)
          else (None, w\<lparr>auth_cache := (auth_cache w)(token_hash := None)\<rparr>))"

definition auth_cache_set :: "string \<Rightarrow> nat \<Rightarrow> int \<Rightarrow> world \<Rightarrow> world" where
  "auth_cache_set token_hash a current_time w =
     w\<lparr>auth_cache := (auth_cache w)(token_hash \<mapsto>
          \<lparr>cached_identity = a, cached_at = current_time\<rparr>)\<rparr>"

section \<open>Provisioning: get\_or\_create\_entra\_user\<close>

text \<open>
  The function runs under the per-identifier lock. In one thread the lock is free
  when it is asked for; what is left of it in the model is the clean-up task that the
  \<open>finally\<close> clause schedules. \<open>cache\<close> is the \<open>cache_user\<close> of the user record cache
  that the caller hands over.
\<close>

definition new_entra_user :: "string \<Rightarrow> string \<Rightarrow> string \<Rightarrow> string \<Rightarrow> string list \<Rightarrow> pydict" where
  "new_entra_user now_iso stamp email entra_oid roles =
     Map.empty(''id'' \<mapsto> VStr (''user_'' @ stamp), ''type'' \<mapsto> VStr ''user'',
       ''email'' \<mapsto> VStr (strip (lower email)), ''entra_oid'' \<mapsto> VStr entra_oid,
       ''roles'' \<mapsto> roles_val (if roles = [] then [''standard''] else roles),
       ''role'' \<mapsto> VStr (case roles of [] \<Rightarrow> ''standard'' | r # _ \<Rightarrow> r),
       ''auth_method'' \<mapsto> VStr ''entra'', ''auth_type'' \<mapsto> VStr ''entra'',
       ''display_name'' \<mapsto> VStr (strip (lower email)), ''is_active'' \<mapsto> VBool True,
       ''created_at'' \<mapsto> VStr now_iso, ''updated_at'' \<mapsto> VStr now_iso)"

text \<open>
  The creation and its \<open>except\<close> clause: when \<open>create_user\<close> or \<open>cache_user\<close> raises,
  the user is looked up by email once more, and the exception is raised again only
  when there is none.
\<close>

definition create_failed :: "string \<Rightarrow> exn \<Rightarrow> world \<Rightarrow> (exn + nat) \<times> world" where
  "create_failed email create_error w =
     (case db_get_user_by_email email w of
        (Some existing_user, w1) \<Rightarrow> (case alloc existing_user w1 of (a, w2) \<Rightarrow> (Inr a, w2))
      | (None, w1) \<Rightarrow> (Inl create_error, w1))"

definition create_entra_user ::
  "(nat \<Rightarrow> world \<Rightarrow> exn option \<times> world) \<Rightarrow> string \<Rightarrow> string \<Rightarrow> string \<Rightarrow> string
    \<Rightarrow> string list \<Rightarrow> world \<Rightarrow> (exn + nat) \<times> world" where
  "create_entra_user cache now_iso stamp email entra_oid roles w =
     (case db_create_user now_iso (new_entra_user now_iso stamp email entra_oid roles) w of
        (Inl e, w1) \<Rightarrow> create_failed email e w1
      | (Inr created_user, w1) \<Rightarrow>
          (case alloc created_user w1 of
             (a, w2) \<Rightarrow>
               (case cache a w2 of
                  (Some e, w3) \<Rightarrow> create_failed email e w3
                | (None, w3) \<Rightarrow> (Inr a, w3))))"

definition get_or_create_body ::
  "(nat \<Rightarrow> world \<Rightarrow> exn option \<times> world) \<Rightarrow> string \<Rightarrow> string \<Rightarrow> string \<Rightarrow> string
    \<Rightarrow> string list \<Rightarrow> world \<Rightarrow> (exn + nat) \<times> world" where
  "get_or_create_body cache now_iso stamp email entra_oid roles w =
     (case db_get_user_by_email email w of
        (Some existing_user, w1) \<Rightarrow>
          (if \<not> truthy (dget existing_user ''entra_oid'') \<and> entra_oid \<noteq> []
           then
             (let updated = existing_user(''entra_oid'' \<mapsto> VStr entra_oid,
                              ''auth_method'' \<mapsto> VStr ''entra'', ''updated_at'' \<mapsto> VStr now_iso)
              in case db_replace_item updated w1 of
                   (Inl e, w2) \<Rightarrow> (Inl e, w2)
                 | (Inr _, w2) \<Rightarrow> (case alloc updated w2 of (a, w3) \<Rightarrow> (Inr a, w3)))
           else (case alloc existing_user w1 of (a, w2) \<Rightarrow> (Inr a, w2)))
      | (None, w1) \<Rightarrow>
          (case (if entra_oid \<noteq> [] then db_get_user_by_entra_oid (VStr entra_oid) w1
                 else (None, w1)) of
             (Some existing_user, w2) \<Rightarrow>
               (case dget_default existing_user ''email'' (VStr []) of
                  VStr s \<Rightarrow>
                    (if lower s = lower email
                     then (case alloc existing_user w2 of (a, w3) \<Rightarrow> (Inr a, w3))
                     else
                       (let updated = existing_user(''email'' \<mapsto> VStr (strip (lower email)),
                                        ''updated_at'' \<mapsto> VStr now_iso)
                        in case db_replace_item updated w2 of
                             (Inl e, w3) \<Rightarrow> (Inl e, w3)
                           | (Inr _, w3) \<Rightarrow>
                               (case alloc updated w3 of (a, w4) \<Rightarrow> (Inr a, w4))))
                | _ \<Rightarrow> (Inl (AttributeError ''lower''), w2))
           | (None, w2) \<Rightarrow> create_entra_user cache now_iso stamp email entra_oid roles w2))"

definition get_or_create_entra_user ::
  "(nat \<Rightarrow> world \<Rightarrow> exn option \<times> world) \<Rightarrow> string \<Rightarrow> string \<Rightarrow> string \<Rightarrow> string
    \<Rightarrow> string list \<Rightarrow> world \<Rightarrow> (exn + nat) \<times> world" where
  "get_or_create_entra_user cache now_iso stamp email entra_oid roles w =
     (let lock_identifier = (if entra_oid \<noteq> [] then entra_oid else strip (lower email))
      in case get_or_create_body cache now_iso stamp email entra_oid roles w of
           (r, w1) \<Rightarrow> (r, w1\<lparr>tasks := tasks w1 @ [CleanupUserLock lock_identifier]\<rparr>))"

section \<open>get\_current\_user\_cached\<close>

text \<open>
  The function that the other routers import under the name \<open>get_current_user_any\<close>:
  the module ends with \<open>get_current_user_any = get_current_user_cached\<close>. It has no
  parameter for the authentication result cache and reads no configuration.
\<close>

definition user_token :: "claims \<Rightarrow> (string \<times> string) option" where
  "user_token payload =
     (case (token_email payload, c_oid payload) of
        (Some email, Some entra_oid) \<Rightarrow>
          if email \<noteq> [] \<and> entra_oid \<noteq> [] then Some (email, entra_oid) else None
      | _ \<Rightarrow> None)"

text \<open>
  What is done to the record found: the token's roles replace the stored ones only
  when the token has some; a record left without a list of roles gets the list of its
  \<open>role\<close> field, or of \<open>standard\<close>.
\<close>

definition cached_found_update :: "string \<Rightarrow> string list option \<Rightarrow> pydict \<Rightarrow> pydict" where
  "cached_found_update entra_oid roles user =
     (let u1 = user(''auth_type'' \<mapsto> VStr ''entra'', ''entra_oid'' \<mapsto> VStr entra_oid);
          u2 = (case roles of
                  None \<Rightarrow> u1
                | Some rs \<Rightarrow> if rs = [] then u1 else u1(''roles'' \<mapsto> roles_val rs))
      in case u2 ''roles'' of
           Some (VList (r # rs)) \<Rightarrow> u2
         | _ \<Rightarrow> u2(''roles'' \<mapsto> VList [dget_default u2 ''role'' (VStr ''standard'')]))"

text \<open>
  The \<open>try\<close> block for the Entra token. Every exception in it is caught and dropped
  by \<open>except Exception: pass\<close>, so that the result is a record or nothing.
\<close>

definition cached_create_branch ::
  "digest \<Rightarrow> request \<Rightarrow> string \<Rightarrow> string \<Rightarrow> string list option \<Rightarrow> world \<Rightarrow> nat option \<times> world" where
  "cached_create_branch digest rq email entra_oid roles w =
     (case get_or_create_entra_user (cache_user digest (rq_now rq)) (rq_iso rq) (rq_stamp rq)
             email entra_oid
             (case roles of None \<Rightarrow> [''standard'']
              | Some rs \<Rightarrow> if rs = [] then [''standard''] else rs) w of
        (Inl e, w1) \<Rightarrow> (None, w1)
      | (Inr a, w1) \<Rightarrow> (Some a, set_obj a ((heap w1 a)(''auth_type'' \<mapsto> VStr ''entra'')) w1))"

definition cached_entra_branch ::
  "digest \<Rightarrow> request \<Rightarrow> world \<Rightarrow> nat option \<times> world" where
  "cached_entra_branch digest rq w =
     (case rq_entra rq of
        Inl e \<Rightarrow> (None, w)
      | Inr payload \<Rightarrow>
          (case user_token payload of
             None \<Rightarrow>
               (if is_app_only payload
                then (case alloc (app_identity payload) w of (a, w1) \<Rightarrow> (Some a, w1))
                else (None, w))
           | Some (email, entra_oid) \<Rightarrow>
               (case cached_get_user_by_entra_oid digest entra_oid (rq_now rq) None w of
                  (r1, w1) \<Rightarrow>
                    (case (if found w1 r1 then (r1, w1)
                           else cached_get_user_by_email digest email (rq_now rq) None w1) of
                       (r2, w2) \<Rightarrow>
                         (case (if found w2 r2 then r2 else None) of
                            Some a \<Rightarrow>
                              (Some a,
                               set_obj a
                                 (cached_found_update entra_oid (c_roles payload) (heap w2 a)) w2)
                          | None \<Rightarrow>
                              cached_create_branch digest rq email entra_oid
                                (c_roles payload) w2)))))"

definition legacy_roles_update :: "pydict \<Rightarrow> pydict" where
  "legacy_roles_update user =
     (let u1 = user(''auth_type'' \<mapsto> VStr ''legacy'')
      in if truthy (dget u1 ''role'')
         then u1(''roles'' \<mapsto> VList [dget u1 ''role''])
         else u1(''role'' \<mapsto> VStr ''standard'', ''roles'' \<mapsto> VList [VStr ''standard'']))"

definition cached_legacy_branch ::
  "digest \<Rightarrow> request \<Rightarrow> world \<Rightarrow> (exn + nat) \<times> world" where
  "cached_legacy_branch digest rq w =
     (case rq_legacy rq of
        Inl e \<Rightarrow> (Inl (HTTPException 401 ''Invalid authentication token''), w)
      | Inr sub \<Rightarrow>
          (case (if opt_truthy sub then sub else None) of
             None \<Rightarrow> (Inl (HTTPException 401 ''Invalid authentication token''), w)
           | Some email \<Rightarrow>
               (case cached_get_user_by_email digest email (rq_now rq) None w of
                  (r, w1) \<Rightarrow>
                    (case (if found w1 r then r else None) of
                       Some a \<Rightarrow> (Inr a, set_obj a (legacy_roles_update (heap w1 a)) w1)
                     | None \<Rightarrow>
                         (Inl (HTTPException 401 ''Invalid authentication token''), w1)))))"

definition get_current_user_cached ::
  "digest \<Rightarrow> request \<Rightarrow> world \<Rightarrow> (exn + nat) \<times> world" where
  "get_current_user_cached digest rq w =
     (case cached_entra_branch digest rq w of
        (Some a, w1) \<Rightarrow> (Inr a, w1)
      | (None, w1) \<Rightarrow> cached_legacy_branch digest rq w1)"



section \<open>get\_current\_user\_any, as defined\<close>

text \<open>
  The function that the module defines under the name \<open>get_current_user_any\<close> before
  the name is bound again: the dependency of the admin routes of the module itself.
  It looks the users up in the store, not in the user record cache, and hands a user
  record cache of its own making, dropped afterwards, to \<open>get_or_create_entra_user\<close>.
  \<open>token_digest\<close> is \<open>generate_token_hash\<close>, the SHA-256 digest of the token.
\<close>

fun dec :: "nat \<Rightarrow> string" where
  "dec n = (if n < 10 then [''0123456789'' ! n]
            else dec (n div 10) @ [''0123456789'' ! (n mod 10)])"

text \<open>\<open>str(e)\<close>: the message of the exception.\<close>

fun str_exn :: "exn \<Rightarrow> string" where
  "str_exn (HTTPException c d) = dec c @ '': '' @ d"
| "str_exn (ValueError m) = m"
| "str_exn (TypeError m) = m"
| "str_exn (AttributeError m) = m"
| "str_exn (JWTError m) = m"
| "str_exn (CosmosError m) = m"
| "str_exn ExpiredSignatureError = ''Signature has expired''"
| "str_exn InvalidAudienceError = ''Invalid audience''"
| "str_exn InvalidIssuerError = ''Invalid issuer''"
| "str_exn (PyJWTError m) = m"
| "str_exn (KeyError k) = [CHR 0x27] @ k @ [CHR 0x27]"

text \<open>\<open>str\<close> of a list of strings.\<close>

fun repr_items :: "string list \<Rightarrow> string" where
  "repr_items [] = []"
| "repr_items [x] = [CHR 0x27] @ x @ [CHR 0x27]"
| "repr_items (x # y # zs) = [CHR 0x27] @ x @ [CHR 0x27] @ '', '' @ repr_items (y # zs)"

definition repr_list :: "string list \<Rightarrow> string" where
  "repr_list xs = ''['' @ repr_items xs @ '']''"

definition any_found_update :: "string \<Rightarrow> string list \<Rightarrow> pydict \<Rightarrow> pydict" where
  "any_found_update entra_oid roles user =
     (let u1 = user(''entra_oid'' \<mapsto> VStr entra_oid)
      in if roles \<noteq> [] then u1(''roles'' \<mapsto> roles_val roles)
         else if truthy (dget u1 ''roles'') then u1
         else u1(''roles'' \<mapsto> VList [VStr ''standard'']))"

definition cache_user_dropped :: "digest \<Rightarrow> int \<Rightarrow> nat \<Rightarrow> world \<Rightarrow> exn option \<times> world" where
  "cache_user_dropped digest current_time a w = (fst (cache_user digest current_time a w), w)"

definition any_entra_branch ::
  "digest \<Rightarrow> string \<Rightarrow> request \<Rightarrow> world \<Rightarrow> (exn + nat) \<times> world" where
  "any_entra_branch digest token_hash rq w =
     (case rq_entra rq of
        Inl e \<Rightarrow> (Inl e, w)
      | Inr payload \<Rightarrow>
          (let roles = (case c_roles payload of None \<Rightarrow> [] | Some rs \<Rightarrow> rs)
           in case user_token payload of
                None \<Rightarrow>
                  (if is_app_only payload
                   then (case alloc (app_identity payload) w of
                           (a, w1) \<Rightarrow> (Inr a, auth_cache_set token_hash a (rq_now rq) w1))
                   else (Inl (ValueError ''Missing email or Entra OID in token claims.''), w))
              | Some (email, entra_oid) \<Rightarrow>
                  (case db_get_user_by_entra_oid (VStr entra_oid) w of
                     (r1, w1) \<Rightarrow>
                       (case (case r1 of Some u \<Rightarrow> (r1, w1)
                              | None \<Rightarrow> db_get_user_by_email email w1) of
                          (Some user, w2) \<Rightarrow>
                            (case db_update_user (rq_iso rq)
                                    (any_found_update entra_oid roles user) w2 of
                               (Inl e, w3) \<Rightarrow> (Inl e, w3)
                             | (Inr updated, w3) \<Rightarrow>
                                 (case alloc (updated(''auth_type'' \<mapsto> VStr ''entra'')) w3 of
                                    (a, w4) \<Rightarrow>
                                      (Inr a, auth_cache_set token_hash a (rq_now rq) w4)))
                        | (None, w2) \<Rightarrow>
                            (case get_or_create_entra_user
                                    (cache_user_dropped digest (rq_now rq)) (rq_iso rq)
                                    (rq_stamp rq) email entra_oid roles w2 of
                               (Inl e, w3) \<Rightarrow> (Inl e, w3)
                             | (Inr a, w3) \<Rightarrow>
                                 (Inr a,
                                  auth_cache_set token_hash a (rq_now rq)
                                    (set_obj a ((heap w3 a)(''auth_type'' \<mapsto> VStr ''entra''))
                                       w3)))))))"

definition any_legacy_branch :: "string \<Rightarrow> request \<Rightarrow> world \<Rightarrow> (exn + nat) \<times> world" where
  "any_legacy_branch token_hash rq w =
     (case rq_legacy rq of
        Inl e \<Rightarrow> (Inl e, w)
      | Inr sub \<Rightarrow>
          (case (if opt_truthy sub then sub else None) of
             None \<Rightarrow> (Inl (ValueError ''Invalid legacy token: no subject''), w)
           | Some email \<Rightarrow>
               (case db_get_user_by_email email w of
                  (Some user, w1) \<Rightarrow>
                    (case alloc (user(''auth_type'' \<mapsto> VStr ''legacy'')) w1 of
                       (a, w2) \<Rightarrow> (Inr a, auth_cache_set token_hash a (rq_now rq) w2))
                | (None, w1) \<Rightarrow> (Inl (ValueError ''User not found for legacy token''), w1))))"

text \<open>
  The two stages after a miss of the authentication result cache. A stage returns the
  identity, or raises, or leaves the text of its failure for the message of the last
  exception.
\<close>

datatype stage = Done "exn + nat" | Failed "string option"

definition any_entra_stage ::
  "digest \<Rightarrow> string \<Rightarrow> config \<Rightarrow> request \<Rightarrow> world \<Rightarrow> stage \<times> world" where
  "any_entra_stage digest token_hash cfg rq w =
     (if is_entra_enabled cfg \<and> cfg_entra_service cfg
      then (case any_entra_branch digest token_hash rq w of
              (Inr a, w1) \<Rightarrow> (Done (Inr a), w1)
            | (Inl e, w1) \<Rightarrow>
                (if is_legacy_enabled cfg
                 then (Failed (Some (''Entra authentication failed: '' @ str_exn e)), w1)
                 else (Done (Inl (HTTPException 401 ''Entra ID authentication failed'')), w1)))
      else (Failed None, w))"

definition any_legacy_stage ::
  "string \<Rightarrow> config \<Rightarrow> request \<Rightarrow> string option \<Rightarrow> world \<Rightarrow> stage \<times> world" where
  "any_legacy_stage token_hash cfg rq auth_error w =
     (if is_legacy_enabled cfg
      then (case any_legacy_branch token_hash rq w of
              (Inr a, w1) \<Rightarrow> (Done (Inr a), w1)
            | (Inl e, w1) \<Rightarrow>
                (Failed (Some (case auth_error of
                                 None \<Rightarrow> ''Legacy authentication failed: '' @ str_exn e
                               | Some s \<Rightarrow> s @ ''; Legacy authentication failed: '' @ str_exn e)),
                 w1))
      else (Failed auth_error, w))"

definition get_current_user_any ::
  "digest \<Rightarrow> (string \<Rightarrow> string) \<Rightarrow> config \<Rightarrow> request \<Rightarrow> world \<Rightarrow> (exn + nat) \<times> world" where
  "get_current_user_any digest token_digest cfg rq w =
     (let token_hash = token_digest (rq_token rq)
      in case auth_cache_get token_hash (rq_now rq) w of
           (cached_user, w0) \<Rightarrow>
             (case (if found w0 cached_user then cached_user else None) of
                Some a \<Rightarrow> (Inr a, w0)
              | None \<Rightarrow>
                  (case any_entra_stage digest token_hash cfg rq w0 of
                     (Done r, w1) \<Rightarrow> (r, w1)
                   | (Failed auth_error, w1) \<Rightarrow>
                       (case any_legacy_stage token_hash cfg rq auth_error w1 of
                          (Done r, w2) \<Rightarrow> (r, w2)
                        | (Failed auth_error2, w2) \<Rightarrow>
                            (Inl (HTTPException 401
                                   (''Authentication failed. Enabled methods: ''
                                    @ repr_list (get_enabled_methods cfg)
                                    @ (case auth_error2 of None \<Rightarrow> []
                                       | Some s \<Rightarrow> ''. Details: '' @ s))), w2)))))"

section \<open>get\_current\_user\_entra\<close>

text \<open>
  The Entra-only resolver of the module; no route depends on it. For a record found by
  email it writes the object id to the store and then calls
  \<open>invalidate_user_cache(user_id=..., email=..., entra_oid=...)\<close>, parameters that the
  method, \<open>invalidate_user_cache(identifier, lookup_type)\<close>, does not have: the call
  raises \<open>TypeError\<close>, and the function turns every exception into a 401.
\<close>

text \<open>\<open>CosmosDB.update_user(user_id, update_data)\<close>: read, update the fields, replace.\<close>

definition db_update_user_fields ::
  "string \<Rightarrow> pyval \<Rightarrow> pydict \<Rightarrow> world \<Rightarrow> (exn + pydict) \<times> world" where
  "db_update_user_fields now_iso user_id update_data w =
     (case read_item (auth_container w) user_id of
        Inl e \<Rightarrow> (Inl e, w\<lparr>store_log := store_log w @ [ReadItem user_id]\<rparr>)
      | Inr existing_user \<Rightarrow>
          (let updated = (existing_user ++ update_data)(''updated_at'' \<mapsto> VStr now_iso)
           in case replace_item (auth_container w) updated of
                Inl e \<Rightarrow> (Inl e, w\<lparr>store_log := store_log w @ [UpdateUser updated]\<rparr>)
              | Inr (replaced, docs') \<Rightarrow>
                  (Inr replaced,
                   w\<lparr>auth_container := docs',
                      store_log := store_log w @ [UpdateUser updated]\<rparr>)))"

definition entra_email :: "claims \<Rightarrow> string option" where
  "entra_email payload =
     (case token_email payload of
        None \<Rightarrow> None
      | Some email \<Rightarrow> if email \<noteq> [] then Some (strip (lower email)) else Some email)"

definition entra_user_token :: "claims \<Rightarrow> (string \<times> string) option" where
  "entra_user_token payload =
     (case (entra_email payload, c_oid payload) of
        (Some email, Some entra_oid) \<Rightarrow>
          if email \<noteq> [] \<and> entra_oid \<noteq> [] then Some (email, entra_oid) else None
      | _ \<Rightarrow> None)"

text \<open>
  The record found by object id: \<open>not user.get("roles") or len(user.get("roles", []))
  == 0\<close> has no length to take of a true value that is not a string or a list.
\<close>

definition entra_default_roles :: "pydict \<Rightarrow> exn + pydict" where
  "entra_default_roles user =
     (if truthy (dget user ''roles'')
      then (case dget user ''roles'' of
              VInt n \<Rightarrow> Inl (TypeError ''object of type int has no len()'')
            | VBool b \<Rightarrow> Inl (TypeError ''object of type bool has no len()'')
            | _ \<Rightarrow> Inr user)
      else Inr (user(''roles'' \<mapsto> VList [VStr ''standard''])))"

definition entra_touch_last_login ::
  "digest \<Rightarrow> string \<Rightarrow> string \<Rightarrow> pydict \<Rightarrow> world \<Rightarrow> world" where
  "entra_touch_last_login digest now_iso entra_oid user w =
     (case user ''id'' of
        None \<Rightarrow> w
      | Some user_id \<Rightarrow>
          (case db_update_user_fields now_iso user_id
                  (Map.empty(''last_login'' \<mapsto> VStr now_iso)) w of
             (Inl e, w1) \<Rightarrow> w1
           | (Inr _, w1) \<Rightarrow>
               (let w2 = invalidate_user_cache digest (VStr entra_oid) ''entra_oid'' w1
                in if truthy (dget user ''email'')
                   then invalidate_user_cache digest (dget user ''email'') ''email'' w2
                   else w2)))"

definition entra_found_by_oid ::
  "digest \<Rightarrow> request \<Rightarrow> string \<Rightarrow> nat \<Rightarrow> world \<Rightarrow> (exn + nat) \<times> world" where
  "entra_found_by_oid digest rq entra_oid a w =
     (let u1 = (heap w a)(''auth_type'' \<mapsto> VStr ''entra'', ''last_login'' \<mapsto> VStr (rq_iso rq))
      in case entra_default_roles u1 of
           Inl e \<Rightarrow> (Inl e, set_obj a u1 w)
         | Inr u2 \<Rightarrow>
             (Inr a, entra_touch_last_login digest (rq_iso rq) entra_oid u2 (set_obj a u2 w)))"

definition unexpected_keyword :: string where
  "unexpected_keyword =
     ''AzureCachedUserService.invalidate_user_cache() got an unexpected keyword argument ''
     @ [CHR 0x27] @ ''user_id'' @ [CHR 0x27]"

definition entra_found_by_email ::
  "request \<Rightarrow> string \<Rightarrow> string list \<Rightarrow> nat \<Rightarrow> world \<Rightarrow> (exn + nat) \<times> world" where
  "entra_found_by_email rq entra_oid roles a w =
     (let u1 = any_found_update entra_oid roles (heap w a);
          u2 = u1(''updated_at'' \<mapsto> VStr (rq_iso rq))
      in case db_update_user (rq_iso rq) u1 (set_obj a u2 w) of
           (Inl e, w1) \<Rightarrow> (Inl e, w1)
         | (Inr updated, w1) \<Rightarrow>
             (case updated ''id'' of
                None \<Rightarrow> (Inl (KeyError ''id''), w1)
              | Some user_id \<Rightarrow> (Inl (TypeError unexpected_keyword), w1)))"

definition entra_try :: "digest \<Rightarrow> request \<Rightarrow> world \<Rightarrow> (exn + nat) \<times> world" where
  "entra_try digest rq w =
     (case rq_entra rq of
        Inl e \<Rightarrow> (Inl e, w)
      | Inr payload \<Rightarrow>
          (let roles = (case c_roles payload of None \<Rightarrow> [] | Some rs \<Rightarrow> rs)
           in case entra_user_token payload of
                None \<Rightarrow>
                  (if is_app_only payload
                   then (case alloc (app_identity payload) w of (a, w1) \<Rightarrow> (Inr a, w1))
                   else (Inl (ValueError ''Missing email or Entra OID in token claims.''), w))
              | Some (email, entra_oid) \<Rightarrow>
                  (case cached_get_user_by_entra_oid digest entra_oid (rq_now rq) None w of
                     (r1, w1) \<Rightarrow>
                       (case (if found w1 r1 then r1 else None) of
                          Some a \<Rightarrow> entra_found_by_oid digest rq entra_oid a w1
                        | None \<Rightarrow>
                            (case cached_get_user_by_email digest email (rq_now rq) None w1 of
                               (r2, w2) \<Rightarrow>
                                 (case (if found w2 r2 then r2 else None) of
                                    Some a \<Rightarrow> entra_found_by_email rq entra_oid roles a w2
                                  | None \<Rightarrow>
                                      get_or_create_entra_user
                                        (cache_user digest (rq_now rq)) (rq_iso rq)
                                        (rq_stamp rq) email entra_oid roles w2))))))"

definition get_current_user_entra :: "digest \<Rightarrow> request \<Rightarrow> world \<Rightarrow> (exn + nat) \<times> world" where
  "get_current_user_entra digest rq w =
     (case entra_try digest rq w of
        (Inl e, w1) \<Rightarrow>
          (Inl (HTTPException 401
                 (''Invalid Entra ID token or user migration error: '' @ str_exn e)), w1)
      | (Inr a, w1) \<Rightarrow> (Inr a, w1))"

section \<open>get\_me\<close>

text \<open>
  The handler of \<open>GET /me\<close>, with \<open>audit_login\<close> at its default \<open>False\<close> (the login
  audit, which writes to the audit log, is off). It tests for an application token in
  its own way, and it creates a missing user through \<open>UserManagementService\<close>.
\<close>

definition me_is_app_only :: "claims \<Rightarrow> bool" where
  "me_is_app_only payload =
     (opt_truthy (token_app_id payload) \<and> \<not> opt_truthy (c_scp payload)
      \<and> \<not> opt_truthy (c_oid payload))"

definition me_app_identity :: "claims \<Rightarrow> pydict" where
  "me_app_identity payload =
     (let app_id = (case token_app_id payload of None \<Rightarrow> [] | Some s \<Rightarrow> s)
      in Map.empty(''id'' \<mapsto> VStr (''app_'' @ app_id), ''auth_type'' \<mapsto> VStr ''entra_app'',
           ''roles'' \<mapsto> roles_val (case c_roles payload of None \<Rightarrow> [] | Some rs \<Rightarrow> rs),
           ''display_name'' \<mapsto> VStr (''app:'' @ app_id), ''is_active'' \<mapsto> VBool True))"

definition token_name :: "claims \<Rightarrow> string" where
  "token_name payload =
     strip (if opt_truthy (c_name payload) then (case c_name payload of None \<Rightarrow> [] | Some s \<Rightarrow> s)
            else (case c_given_name payload of None \<Rightarrow> [] | Some s \<Rightarrow> s) @ '' ''
                 @ (case c_family_name payload of None \<Rightarrow> [] | Some s \<Rightarrow> s))"

text \<open>\<open>UserManagementService.create_user\<close>.\<close>

definition um_create_user :: "string \<Rightarrow> pydict \<Rightarrow> world \<Rightarrow> (exn + pydict) \<times> world" where
  "um_create_user now_iso user_data0 w =
     (let u1 = setdefault user_data0 ''type'' (VStr ''user'');
          u2 = setdefault u1 ''created_at'' (VStr now_iso);
          u3 = setdefault u2 ''updated_at'' (VStr now_iso);
          u4 = setdefault u3 ''auth_method'' (VStr ''legacy'');
          u5 = setdefault u4 ''display_name'' (py_or (dget u4 ''displayName'') (dget u4 ''email''));
          u6 = setdefault u5 ''last_login'' (VStr now_iso);
          u7 = setdefault u6 ''is_active'' (VBool True);
          default_role = dget_default u7 ''role'' (VStr ''standard'');
          u8 = setdefault u7 ''role'' default_role;
          u9 = setdefault u8 ''roles'' (VList [default_role])
      in db_create_user now_iso u9 w)"

definition me_new_user :: "request \<Rightarrow> claims \<Rightarrow> string \<Rightarrow> string \<Rightarrow> pydict" where
  "me_new_user rq payload email entra_oid =
     Map.empty(''email'' \<mapsto> VStr email, ''name'' \<mapsto> VStr (token_name payload),
       ''role'' \<mapsto> VStr ''standard'', ''entra_oid'' \<mapsto> VStr entra_oid,
       ''auth_type'' \<mapsto> VStr ''entra'', ''roles'' \<mapsto> VList [VStr ''standard''],
       ''created_via'' \<mapsto> VStr ''auto_entra_auth'', ''created_at'' \<mapsto> VStr (rq_iso rq))"

definition me_create_branch ::
  "request \<Rightarrow> claims \<Rightarrow> string \<Rightarrow> string \<Rightarrow> world \<Rightarrow> nat \<times> world" where
  "me_create_branch rq payload email entra_oid w =
     (case um_create_user (rq_iso rq)
             (Map.empty(''email'' \<mapsto> VStr email, ''name'' \<mapsto> VStr (token_name payload),
                ''role'' \<mapsto> VStr ''standard'')) w of
        (Inr created_user, w1) \<Rightarrow>
          (if dom created_user = {} then alloc (me_new_user rq payload email entra_oid) w1
           else alloc (created_user(''auth_type'' \<mapsto> VStr ''entra'',
                         ''entra_oid'' \<mapsto> VStr entra_oid,
                         ''roles'' \<mapsto> VList [dget_default created_user ''role'' (VStr ''standard'')]))
                  w1)
      | (Inl e, w1) \<Rightarrow> alloc (me_new_user rq payload email entra_oid) w1)"

text \<open>The last three assignments of the Entra branch: the roles are the token's.\<close>

definition me_final_update :: "string \<Rightarrow> string list \<Rightarrow> pydict \<Rightarrow> pydict" where
  "me_final_update entra_oid roles user =
     user(''auth_type'' \<mapsto> VStr ''entra'', ''entra_oid'' \<mapsto> VStr entra_oid,
          ''roles'' \<mapsto> roles_val roles)"

definition me_entra_branch :: "digest \<Rightarrow> request \<Rightarrow> world \<Rightarrow> nat option \<times> world" where
  "me_entra_branch digest rq w =
     (case rq_entra rq of
        Inl e \<Rightarrow> (None, w)
      | Inr payload \<Rightarrow>
          (let roles = (case c_roles payload of None \<Rightarrow> [] | Some rs \<Rightarrow> rs)
           in case user_token payload of
                None \<Rightarrow>
                  (if me_is_app_only payload
                   then (case alloc (me_app_identity payload) w of (a, w1) \<Rightarrow> (Some a, w1))
                   else (None, w))
              | Some (email, entra_oid) \<Rightarrow>
                  (case cached_get_user_by_entra_oid digest entra_oid (rq_now rq) None w of
                     (r1, w1) \<Rightarrow>
                       (case (if found w1 r1 then (r1, w1)
                              else cached_get_user_by_email digest email (rq_now rq) None w1) of
                          (r2, w2) \<Rightarrow>
                            (case (case (if found w2 r2 then r2 else None) of
                                     Some a \<Rightarrow> (a, w2)
                                   | None \<Rightarrow> me_create_branch rq payload email entra_oid w2) of
                               (a, w3) \<Rightarrow>
                                 (Some a,
                                  set_obj a (me_final_update entra_oid roles (heap w3 a))
                                    w3))))))"

definition me_legacy_update :: "string \<Rightarrow> pydict \<Rightarrow> pydict" where
  "me_legacy_update now_iso user =
     (legacy_roles_update user)(''_debug_timestamp'' \<mapsto> VStr now_iso)"

definition me_legacy_branch :: "digest \<Rightarrow> request \<Rightarrow> world \<Rightarrow> (exn + nat) \<times> world" where
  "me_legacy_branch digest rq w =
     (case rq_legacy rq of
        Inl e \<Rightarrow> (Inl (HTTPException 401 ''Invalid authentication token''), w)
      | Inr sub \<Rightarrow>
          (case (if opt_truthy sub then sub else None) of
             None \<Rightarrow> (Inl (HTTPException 401 ''Invalid authentication token''), w)
           | Some email \<Rightarrow>
               (case cached_get_user_by_email digest email (rq_now rq) None w of
                  (r, w1) \<Rightarrow>
                    (case (if found w1 r then r else None) of
                       Some a \<Rightarrow>
                         (Inr a, set_obj a (me_legacy_update (rq_iso rq) (heap w1 a)) w1)
                     | None \<Rightarrow>
                         (Inl (HTTPException 401 ''Invalid authentication token''), w1)))))"

definition get_me :: "digest \<Rightarrow> request \<Rightarrow> world \<Rightarrow> (exn + nat) \<times> world" where
  "get_me digest rq w =
     (case me_entra_branch digest rq w of
        (Some a, w1) \<Rightarrow> (Inr a, w1)
      | (None, w1) \<Rightarrow> me_legacy_branch digest rq w1)"

section \<open>AzureOptimizedEntraAuthService: the key set cache and token verification\<close>

text \<open>
  The key set document of the provider is a JSON object: the empty object, or an
  object that has a list of keys under \<open>keys\<close> or has no such member. A key is a
  dictionary with its key id under \<open>kid\<close>. The provider is the function from the
  number of requests made so far to the outcome of the next \<open>GET\<close>: a document, or the
  message of a \<open>requests\<close> exception. The service state counts the requests.
\<close>

datatype jwks = EmptyDoc | Doc "pydict list option"

record key_state =
  jwks_cache :: jwks
  jwks_cache_timestamp :: int
  fetches :: nat

definition jwks_truthy :: "jwks \<Rightarrow> bool" where
  "jwks_truthy j = (case j of EmptyDoc \<Rightarrow> False | Doc _ \<Rightarrow> True)"

text \<open>\<open>jwks.get("keys", [])\<close>.\<close>

definition jwks_keys :: "jwks \<Rightarrow> pydict list" where
  "jwks_keys j = (case j of Doc (Some ks) \<Rightarrow> ks | _ \<Rightarrow> [])"

definition jwks_cache_ttl :: int where
  "jwks_cache_ttl = 3600"

text \<open>
  \<open>_fetch_jwks_with_cache\<close>. The second validity check under the lock reads the same
  fields with the same clock reading as the first, so in one thread it has the same
  outcome.
\<close>

definition fetch_jwks_with_cache ::
  "(nat \<Rightarrow> string + jwks) \<Rightarrow> int \<Rightarrow> key_state \<Rightarrow> (exn + jwks) \<times> key_state" where
  "fetch_jwks_with_cache provider current_time st =
     (if jwks_truthy (jwks_cache st)
         \<and> current_time - jwks_cache_timestamp st < jwks_cache_ttl
      then (Inr (jwks_cache st), st)
      else
        (case provider (fetches st) of
           Inr jwks_data \<Rightarrow>
             (Inr jwks_data,
              st\<lparr>jwks_cache := jwks_data, jwks_cache_timestamp := current_time,
                  fetches := Suc (fetches st)\<rparr>)
         | Inl e \<Rightarrow>
             (if jwks_truthy (jwks_cache st)
              then (Inr (jwks_cache st), st\<lparr>fetches := Suc (fetches st)\<rparr>)
              else (Inl (HTTPException 503 (''Unable to fetch JWKS from Azure: '' @ e)),
                    st\<lparr>fetches := Suc (fetches st)\<rparr>))))"

text \<open>The loop over the keys, left at the first key with the wanted id.\<close>

definition find_key :: "string \<Rightarrow> jwks \<Rightarrow> pydict option" where
  "find_key kid j = find (\<lambda>key. dget key ''kid'' = VStr kid) (jwks_keys j)"

text \<open>
  The body of the \<open>try\<close> statement of \<open>verify_token\<close>. \<open>header\<close> is the outcome of
  \<open>jwt.get_unverified_header\<close>: an exception of the JWT library or the key id of the
  header, if it has one. \<open>decode\<close> is key parsing and \<open>jwt.decode\<close> with the key found.
  \<open>t1\<close> and \<open>t2\<close> are the clock readings of the two calls of \<open>_fetch_jwks_with_cache\<close>.
\<close>

definition verify_token_body ::
  "(nat \<Rightarrow> string + jwks) \<Rightarrow> (exn + string option) \<Rightarrow> (pydict \<Rightarrow> exn + 'p) \<Rightarrow> int \<Rightarrow> int
    \<Rightarrow> key_state \<Rightarrow> (exn + 'p) \<times> key_state" where
  "verify_token_body provider header decode t1 t2 st =
     (case header of
        Inl e \<Rightarrow> (Inl e, st)
      | Inr None \<Rightarrow> (Inl (HTTPException 401 ''Token missing 'kid' in header''), st)
      | Inr (Some kid) \<Rightarrow>
          (if kid = [] then (Inl (HTTPException 401 ''Token missing 'kid' in header''), st)
           else
             (case fetch_jwks_with_cache provider t1 st of
                (Inl e, st1) \<Rightarrow> (Inl e, st1)
              | (Inr jwks, st1) \<Rightarrow>
                  (case find_key kid jwks of
                     Some matching_key \<Rightarrow> (decode matching_key, st1)
                   | None \<Rightarrow>
                       (case fetch_jwks_with_cache provider t2
                               (st1\<lparr>jwks_cache_timestamp := 0\<rparr>) of
                          (Inl e, st2) \<Rightarrow> (Inl e, st2)
                        | (Inr jwks2, st2) \<Rightarrow>
                            (case find_key kid jwks2 of
                               Some matching_key \<Rightarrow> (decode matching_key, st2)
                             | None \<Rightarrow>
                                 (Inl (HTTPException 401
                                    (''Unable to find appropriate key for token validation (kid: ''
                                       @ kid @ '')'')), st2)))))))"

text \<open>
  The \<open>except\<close> clauses of \<open>verify_token\<close>, in their order. The last one,
  \<open>except Exception\<close>, catches every exception that is not one of the JWT library,
  the \<open>HTTPException\<close>s raised in the body among them.
\<close>

fun verify_token_except :: "exn \<Rightarrow> exn" where
  "verify_token_except ExpiredSignatureError = HTTPException 401 ''Token has expired''"
| "verify_token_except InvalidAudienceError = HTTPException 401 ''Invalid token audience''"
| "verify_token_except InvalidIssuerError = HTTPException 401 ''Invalid token issuer''"
| "verify_token_except (PyJWTError m) = HTTPException 401 (''Token validation error: '' @ m)"
| "verify_token_except _ = HTTPException 500 ''Internal authentication error''"

definition verify_token ::
  "(nat \<Rightarrow> string + jwks) \<Rightarrow> (exn + string option) \<Rightarrow> (pydict \<Rightarrow> exn + 'p) \<Rightarrow> int \<Rightarrow> int
    \<Rightarrow> key_state \<Rightarrow> (exn + 'p) \<times> key_state" where
  "verify_token provider header decode t1 t2 st =
     (case verify_token_body provider header decode t1 t2 st of
        (Inl e, st') \<Rightarrow> (Inl (verify_token_except e), st')
      | (Inr payload, st') \<Rightarrow> (Inr payload, st'))"

section \<open>Example data\<close>

definition alice :: pydict where
  "alice = Map.empty(''id'' \<mapsto> VStr ''u1'', ''type'' \<mapsto> VStr ''user'',
     ''email'' \<mapsto> VStr ''a@b.com'', ''entra_oid'' \<mapsto> VStr ''abc123'',
     ''roles'' \<mapsto> VList [VStr ''admin''], ''hashed_password'' \<mapsto> VStr ''$2b$12$x'')"

definition alice_again :: pydict where
  "alice_again = Map.empty(''id'' \<mapsto> VStr ''u2'', ''email'' \<mapsto> VStr ''A@B.com '',
     ''roles'' \<mapsto> VList [VStr ''standard''])"

definition alice_by_subject :: pydict where
  "alice_by_subject = Map.empty(''id'' \<mapsto> VStr ''u3'', ''email'' \<mapsto> VStr ''other@b.com'',
     ''entra_oid'' \<mapsto> VStr ''abc123'')"

definition subject_only :: pydict where
  "subject_only = Map.empty(''id'' \<mapsto> VStr ''u9'', ''entra_oid'' \<mapsto> VStr ''abc123'')"

definition bob :: pydict where
  "bob = Map.empty(''id'' \<mapsto> VStr ''u7'', ''type'' \<mapsto> VStr ''user'',
     ''email'' \<mapsto> VStr ''bob@b.com'', ''role'' \<mapsto> VStr ''standard'',
     ''hashed_password'' \<mapsto> VStr ''$2b$12$y'')"

text \<open>A stand-in for the digest, and a process that has just loaded one record.\<close>

definition toy_digest :: digest where
  "toy_digest lookup_type v = (case v of VStr s \<Rightarrow> s @ ''0123456789abcdef'' | _ \<Rightarrow> ''0123456789abcdef'')"

definition world0 :: world where
  "world0 = \<lparr>auth_container = [alice], heap = (\<lambda>a. Map.empty)(0 := alice), next_addr = 1,
             user_cache = Map.empty, auth_cache = Map.empty, store_log = [], tasks = []\<rparr>"

text \<open>A key set with one key, and a provider that keeps publishing it.\<close>

definition key1 :: pydict where
  "key1 = Map.empty(''kid'' \<mapsto> VStr ''k1'', ''kty'' \<mapsto> VStr ''RSA'')"

definition provider1 :: "nat \<Rightarrow> string + jwks" where
  "provider1 n = Inr (Doc (Some [key1]))"

definition key_state1 :: key_state where
  "key_state1 = \<lparr>jwks_cache = Doc (Some [key1]), jwks_cache_timestamp = 1700000000, fetches = 1\<rparr>"

definition decode_ok :: "pydict \<Rightarrow> exn + unit" where
  "decode_ok key = Inr ()"

text \<open>Tokens and requests.\<close>

definition no_claims :: claims where
  "no_claims = \<lparr>c_oid = None, c_preferred_username = None, c_email = None, c_upn = None,
     c_unique_name = None, c_roles = None, c_appid = None, c_azp = None, c_appidacr = None,
     c_scp = None, c_name = None, c_given_name = None, c_family_name = None\<rparr>"

definition app_claims :: claims where
  "app_claims = no_claims\<lparr>c_appid := Some ''svc1'', c_appidacr := Some ''1''\<rparr>"

definition rq_app :: request where
  "rq_app = \<lparr>rq_token = ''token-of-svc1'', rq_entra = Inr app_claims,
     rq_legacy = Inl (JWTError ''Signature verification failed.''), rq_now = 1000,
     rq_iso = ''2025-01-01T00:16:40+00:00'', rq_stamp = ''1735690600000''\<rparr>"

definition cfg_both :: config where
  "cfg_both = \<lparr>cfg_auth_method = BOTH, cfg_entra_service = True\<rparr>"

definition toy_token_digest :: "string \<Rightarrow> string" where
  "toy_token_digest token = ''sha256-'' @ token"

text \<open>
  The same process with an entry for the token of \<open>svc1\<close> in the authentication result
  cache: one written at time 100, expired at time 1000, and one written at time 900.
\<close>

definition world_expired :: world where
  "world_expired = world0\<lparr>auth_cache :=
     Map.empty(toy_token_digest ''token-of-svc1'' \<mapsto> \<lparr>cached_identity = 0, cached_at = 100\<rparr>)\<rparr>"

definition world_served :: world where
  "world_served = world0\<lparr>auth_cache :=
     Map.empty(toy_token_digest ''token-of-svc1'' \<mapsto> \<lparr>cached_identity = 0, cached_at = 900\<rparr>)\<rparr>"

definition alice_claims :: claims where
  "alice_claims = no_claims\<lparr>c_oid := Some ''abc123'', c_preferred_username := Some ''a@b.com''\<rparr>"

definition rq_alice :: request where
  "rq_alice = \<lparr>rq_token = ''token-of-alice'', rq_entra = Inr alice_claims,
     rq_legacy = Inl (JWTError ''Signature verification failed.''), rq_now = 1000,
     rq_iso = ''2025-01-01T00:16:40+00:00'', rq_stamp = ''1735690600000''\<rparr>"

text \<open>
  The same token with an empty roles claim; a record from before Entra ID, with an
  email and no object id; and a process in which a lookup of that email at time 900,
  when the store had no such record yet, left a "no such user" entry in the user
  record cache.
\<close>

definition rq_alice_no_roles :: request where
  "rq_alice_no_roles = rq_alice\<lparr>rq_entra := Inr (alice_claims\<lparr>c_roles := Some []\<rparr>)\<rparr>"

definition legacy_alice :: pydict where
  "legacy_alice = Map.empty(''id'' \<mapsto> VStr ''u1'', ''type'' \<mapsto> VStr ''user'',
     ''email'' \<mapsto> VStr ''a@b.com'', ''roles'' \<mapsto> VList [VStr ''admin''])"

definition world_legacy :: world where
  "world_legacy = \<lparr>auth_container = [legacy_alice], heap = (\<lambda>a. Map.empty), next_addr = 0,
     user_cache = Map.empty, auth_cache = Map.empty, store_log = [], tasks = []\<rparr>"

definition world_stale :: world where
  "world_stale = world_legacy\<lparr>user_cache :=
     Map.empty(get_cache_key toy_digest ''email'' (VStr ''a@b.com'') \<mapsto>
       \<lparr>entry_data = None, entry_timestamp = 900, entry_ttl = 900\<rparr>)\<rparr>"

definition rq_alice_again :: request where
  "rq_alice_again = rq_alice\<lparr>rq_now := 1010, rq_iso := ''2025-01-01T00:16:50+00:00'',
     rq_stamp := ''1735690610000''\<rparr>"

text \<open>
  A record from before Entra ID that has a \<open>role\<close> and no list of roles, the token
  of its user, and a process in which a lookup of the email at time 900, when the store
  had no such record yet, left a "no such user" entry in the user record cache.
\<close>

definition bob_claims :: claims where
  "bob_claims = no_claims\<lparr>c_oid := Some ''def456'', c_preferred_username := Some ''bob@b.com''\<rparr>"

definition rq_bob :: request where
  "rq_bob = \<lparr>rq_token = ''token-of-bob'', rq_entra = Inr bob_claims,
     rq_legacy = Inl (JWTError ''Signature verification failed.''), rq_now = 1000,
     rq_iso = ''2025-01-01T00:16:40+00:00'', rq_stamp = ''1735690600000''\<rparr>"

definition world_stale_bob :: world where
  "world_stale_bob = \<lparr>auth_container = [bob], heap = (\<lambda>a. Map.empty), next_addr = 0,
     user_cache = Map.empty(get_cache_key toy_digest ''email'' (VStr ''bob@b.com'') \<mapsto>
       \<lparr>entry_data = None, entry_timestamp = 900, entry_ttl = 900\<rparr>),
     auth_cache = Map.empty, store_log = [], tasks = []\<rparr>"

section \<open>Properties of the string functions\<close>







section \<open>Properties of the user store and of the user management service\<close>

lemma first_or_none_filter_Some:
  assumes "first_or_none (filter P xs) = Some d"
  shows "d \<in> set xs \<and> P d"
proof -
  from assms obtain ys where "filter P xs = d # ys"
    by (auto simp: first_or_none_def split: list.splits)
  then have "d \<in> set (filter P xs)" by simp
  then show ?thesis by simp
qed

text \<open>
  C8, as the code has it. \<open>create_user\<close> looks for a document with the same
  (lowercased, stripped) email and then for one with the same external subject. When
  it finds one, it returns that document as its result: no error is raised, no document
  is written, and the container is left as it was. The subject is looked up whenever
  the email gives no document: when the fields have no email at all, when the email is
  blank, and when no document has it.
\<close>

theorem create_user_returns_existing:
  "(dget user_data ''email'' = VStr e \<and> strip (lower e) \<noteq> []
      \<and> get_user_by_email docs (strip (lower e)) = Some existing
     \<longrightarrow> create_user now docs user_data = Inr (existing, docs))
   \<and> (\<not> truthy (dget user_data ''email'')
      \<and> truthy (dget user_data ''entra_oid'')
      \<and> get_user_by_entra_oid docs (dget user_data ''entra_oid'') = Some existing
     \<longrightarrow> create_user now docs user_data = Inr (existing, docs))
   \<and> (dget user_data ''email'' = VStr e \<and> e \<noteq> []
      \<and> (strip (lower e) = [] \<or> get_user_by_email docs (strip (lower e)) = None)
      \<and> truthy (dget user_data ''entra_oid'')
      \<and> get_user_by_entra_oid docs (dget user_data ''entra_oid'') = Some existing
     \<longrightarrow> create_user now docs user_data = Inr (existing, docs))"
proof (intro conjI impI)
  assume a: "dget user_data ''email'' = VStr e \<and> strip (lower e) \<noteq> []
      \<and> get_user_by_email docs (strip (lower e)) = Some existing"
  then have "e \<noteq> []" by (auto simp: strip_def lower_def)
  with a show "create_user now docs user_data = Inr (existing, docs)"
    by (simp add: create_user_def dget_def)
next
  assume a: "\<not> truthy (dget user_data ''email'')
      \<and> truthy (dget user_data ''entra_oid'')
      \<and> get_user_by_entra_oid docs (dget user_data ''entra_oid'') = Some existing"
  then show "create_user now docs user_data = Inr (existing, docs)"
    by (cases "dget user_data ''email''") (simp_all add: create_user_def)
next
  assume a: "dget user_data ''email'' = VStr e \<and> e \<noteq> []
      \<and> (strip (lower e) = [] \<or> get_user_by_email docs (strip (lower e)) = None)
      \<and> truthy (dget user_data ''entra_oid'')
      \<and> get_user_by_entra_oid docs (dget user_data ''entra_oid'') = Some existing"
  show "create_user now docs user_data = Inr (existing, docs)"
  proof (cases "strip (lower e) = []")
    case True
    with a show ?thesis by (simp add: create_user_def dget_def)
  next
    case False
    with a show ?thesis by (simp add: create_user_def dget_def)
  qed
qed

theorem create_user_returns_existing_witness:
  "(dget alice_again ''email'' = VStr ''A@B.com '' \<and> strip (lower ''A@B.com '') \<noteq> []
      \<and> get_user_by_email [alice] (strip (lower ''A@B.com '')) = Some alice)
   \<and> create_user ''2025-01-01T00:00:00+00:00'' [alice] alice_again = Inr (alice, [alice])
   \<and> (\<not> truthy (dget subject_only ''email'') \<and> truthy (dget subject_only ''entra_oid'')
      \<and> get_user_by_entra_oid [alice] (dget subject_only ''entra_oid'') = Some alice)
   \<and> create_user ''2025-01-01T00:00:00+00:00'' [alice] subject_only = Inr (alice, [alice])
   \<and> (dget alice_by_subject ''email'' = VStr ''other@b.com'' \<and> ''other@b.com'' \<noteq> []
      \<and> get_user_by_email [alice] (strip (lower ''other@b.com'')) = None
      \<and> truthy (dget alice_by_subject ''entra_oid'')
      \<and> get_user_by_entra_oid [alice] (dget alice_by_subject ''entra_oid'') = Some alice)
   \<and> create_user ''2025-01-01T00:00:00+00:00'' [alice] alice_by_subject = Inr (alice, [alice])"
proof -
  have h1: "dget alice_again ''email'' = VStr ''A@B.com '' \<and> strip (lower ''A@B.com '') \<noteq> []
      \<and> get_user_by_email [alice] (strip (lower ''A@B.com '')) = Some alice"
    by (simp add: dget_def alice_again_def alice_def get_user_by_email_def is_user_def
        first_or_none_def strip_def lower_def lower_chr_def is_space_def)
  have h2: "\<not> truthy (dget subject_only ''email'') \<and> truthy (dget subject_only ''entra_oid'')
      \<and> get_user_by_entra_oid [alice] (dget subject_only ''entra_oid'') = Some alice"
    by (simp add: dget_def subject_only_def alice_def get_user_by_entra_oid_def is_user_def
        first_or_none_def)
  have h3: "dget alice_by_subject ''email'' = VStr ''other@b.com'' \<and> ''other@b.com'' \<noteq> []
      \<and> get_user_by_email [alice] (strip (lower ''other@b.com'')) = None
      \<and> truthy (dget alice_by_subject ''entra_oid'')
      \<and> get_user_by_entra_oid [alice] (dget alice_by_subject ''entra_oid'') = Some alice"
    by (simp add: dget_def alice_by_subject_def alice_def get_user_by_email_def is_user_def
        get_user_by_entra_oid_def first_or_none_def strip_def lower_def lower_chr_def
        is_space_def)
  have h3': "dget alice_by_subject ''email'' = VStr ''other@b.com'' \<and> ''other@b.com'' \<noteq> []
      \<and> (strip (lower ''other@b.com'') = []
          \<or> get_user_by_email [alice] (strip (lower ''other@b.com'')) = None)
      \<and> truthy (dget alice_by_subject ''entra_oid'')
      \<and> get_user_by_entra_oid [alice] (dget alice_by_subject ''entra_oid'') = Some alice"
    by (simp add: dget_def alice_by_subject_def alice_def get_user_by_email_def is_user_def
        get_user_by_entra_oid_def first_or_none_def strip_def lower_def lower_chr_def
        is_space_def)
  note c1 = create_user_returns_existing [THEN conjunct1, THEN mp, OF h1]
  note c2 = create_user_returns_existing
    [THEN conjunct2, THEN conjunct1, THEN mp, OF h2]
  note c3 = create_user_returns_existing
    [THEN conjunct2, THEN conjunct2, THEN mp, OF h3']
  from h1 h2 h3 c1 [of "''2025-01-01T00:00:00+00:00''"] c2 [of "''2025-01-01T00:00:00+00:00''"]
    c3 [of "''2025-01-01T00:00:00+00:00''"]
  show ?thesis by blast
qed

text \<open>
  C8 as stated fails: the container holds a user with email \<open>a@b.com\<close>, a create with
  the same email (up to case and blanks) under another id returns the stored document,
  with no error.
\<close>

theorem create_user_conflict_counterexample:
  "get_user_by_email [alice] ''a@b.com'' = Some alice
   \<and> create_user ''2025-01-01T00:00:00+00:00'' [alice] alice_again = Inr (alice, [alice])
   \<and> (\<forall>err. create_user ''2025-01-01T00:00:00+00:00'' [alice] alice_again \<noteq> Inl err)"
  by (simp add: create_user_def dget_def alice_again_def alice_def get_user_by_email_def
      is_user_def first_or_none_def strip_def lower_def lower_chr_def is_space_def)

text \<open>
  C10. \<open>get_user\<close> returns the stored document with \<open>hashed_password\<close> removed and
  every other field as stored, and \<open>None\<close> when the read fails; every document that
  \<open>list_users\<close> returns is a stored document with \<open>hashed_password\<close> removed. No
  returned document has the field.
\<close>

theorem user_management_no_hashed_password:
  "(\<forall>u. read_item docs user_id = Inr u \<longrightarrow>
      (\<exists>u'. get_user docs user_id = Some u' \<and> u' ''hashed_password'' = None
          \<and> (\<forall>k. k \<noteq> ''hashed_password'' \<longrightarrow> u' k = u k)))
   \<and> (\<forall>e. read_item docs user_id = Inl e \<longrightarrow> get_user docs user_id = None)
   \<and> (\<forall>u. get_user docs user_id = Some u \<longrightarrow> u ''hashed_password'' = None)
   \<and> (\<forall>us. list_users docs filter_str role auth_method skip limit = Inr us \<longrightarrow>
        (\<forall>u \<in> set us. u ''hashed_password'' = None
            \<and> (\<exists>d \<in> set docs. \<forall>k. k \<noteq> ''hashed_password'' \<longrightarrow> u k = d k)))"
proof (intro conjI allI impI)
  fix u assume "read_item docs user_id = Inr u"
  then show "\<exists>u'. get_user docs user_id = Some u' \<and> u' ''hashed_password'' = None
          \<and> (\<forall>k. k \<noteq> ''hashed_password'' \<longrightarrow> u' k = u k)"
    by (simp add: get_user_def pop_hashed_password_def)
next
  fix e assume "read_item docs user_id = Inl e"
  then show "get_user docs user_id = None" by (simp add: get_user_def)
next
  fix u assume "get_user docs user_id = Some u"
  then show "u ''hashed_password'' = None"
    by (auto simp: get_user_def pop_hashed_password_def split: sum.splits)
next
  fix us assume a: "list_users docs filter_str role auth_method skip limit = Inr us"
  show "\<forall>u \<in> set us. u ''hashed_password'' = None
            \<and> (\<exists>d \<in> set docs. \<forall>k. k \<noteq> ''hashed_password'' \<longrightarrow> u k = d k)"
  proof
    fix u assume "u \<in> set us"
    with a obtain d where d: "u = pop_hashed_password d"
      "d \<in> set (take (nat limit) (drop (nat skip)
                 (filter (list_users_match filter_str role auth_method) docs)))"
      by (auto simp: list_users_def Let_def split: if_splits)
    from d(2) have "d \<in> set docs"
      by (meson in_set_takeD in_set_dropD filter_is_subset subsetD)
    with d(1) show "u ''hashed_password'' = None
            \<and> (\<exists>d \<in> set docs. \<forall>k. k \<noteq> ''hashed_password'' \<longrightarrow> u k = d k)"
      by (auto simp: pop_hashed_password_def)
  qed
qed

theorem user_management_no_hashed_password_witness:
  "read_item [alice, bob] (VStr ''u7'') = Inr bob
   \<and> (\<exists>u'. get_user [alice, bob] (VStr ''u7'') = Some u' \<and> u' ''hashed_password'' = None
          \<and> (\<forall>k. k \<noteq> ''hashed_password'' \<longrightarrow> u' k = bob k))
   \<and> read_item [alice, bob] (VStr ''nobody'') = Inl (CosmosError ''NotFound'')
   \<and> get_user [alice, bob] (VStr ''nobody'') = None
   \<and> list_users [alice, bob] ''b.com'' [] [] 0 100
       = Inr [alice(''hashed_password'' := None), bob(''hashed_password'' := None)]
   \<and> (alice(''hashed_password'' := None)) ''hashed_password'' = None
   \<and> (bob(''hashed_password'' := None)) ''hashed_password'' = None"
proof -
  have r1: "read_item [alice, bob] (VStr ''u7'') = Inr bob"
    by (simp add: read_item_def has_id_def alice_def bob_def)
  have r2: "read_item [alice, bob] (VStr ''nobody'') = Inl (CosmosError ''NotFound'')"
    by (simp add: read_item_def has_id_def alice_def bob_def)
  have l: "list_users [alice, bob] ''b.com'' [] [] 0 100
       = Inr [alice(''hashed_password'' := None), bob(''hashed_password'' := None)]"
    by (simp add: list_users_def list_users_match_def is_user_def email_contains_def
        pop_hashed_password_def alice_def bob_def)
  note t = user_management_no_hashed_password
    [of "[alice, bob]" _ "''b.com''" "[]" "[]" 0 100]
  from t [of "VStr ''u7''"] r1
  have c1: "\<exists>u'. get_user [alice, bob] (VStr ''u7'') = Some u' \<and> u' ''hashed_password'' = None
          \<and> (\<forall>k. k \<noteq> ''hashed_password'' \<longrightarrow> u' k = bob k)"
    by blast
  from t [of "VStr ''nobody''"] r2
  have c2: "get_user [alice, bob] (VStr ''nobody'') = None" by blast
  from t [of "VStr ''u7''"] l
  have c3: "(alice(''hashed_password'' := None)) ''hashed_password'' = None
     \<and> (bob(''hashed_password'' := None)) ''hashed_password'' = None"
    by simp
  from r1 c1 r2 c2 l c3 show ?thesis by blast
qed






section \<open>Properties of the user record cache\<close>

lemma key_distinct:
  "get_cache_key digest ''user_id'' x \<noteq> get_cache_key digest ''email'' y"
  "get_cache_key digest ''user_id'' x \<noteq> get_cache_key digest ''entra_oid'' y"
  "get_cache_key digest ''email'' x \<noteq> get_cache_key digest ''entra_oid'' y"
  "get_cache_key digest ''email'' x \<noteq> get_cache_key digest ''user_id'' y"
  "get_cache_key digest ''entra_oid'' x \<noteq> get_cache_key digest ''user_id'' y"
  "get_cache_key digest ''entra_oid'' x \<noteq> get_cache_key digest ''email'' y"
  by (simp_all add: get_cache_key_def)

lemma cache_user_entries:
  assumes "cache_user digest t a w = (None, w')"
  shows "truthy (dget (heap w a) ''id'') \<longrightarrow>
           user_cache w' (get_cache_key digest ''user_id'' (dget (heap w a) ''id''))
             = Some \<lparr>entry_data = Some a, entry_timestamp = t, entry_ttl = default_ttl\<rparr>"
    and "\<forall>s. dget (heap w a) ''email'' = VStr s \<and> s \<noteq> [] \<longrightarrow>
           user_cache w' (get_cache_key digest ''email'' (VStr (lower s)))
             = Some \<lparr>entry_data = Some a, entry_timestamp = t, entry_ttl = default_ttl\<rparr>"
    and "truthy (dget (heap w a) ''entra_oid'') \<longrightarrow>
           user_cache w' (get_cache_key digest ''entra_oid'' (dget (heap w a) ''entra_oid''))
             = Some \<lparr>entry_data = Some a, entry_timestamp = t, entry_ttl = default_ttl\<rparr>"
    and "store_log w' = store_log w" and "heap w' = heap w" and "tasks w' = tasks w"
  using assms
  by (auto simp: cache_user_def Let_def key_distinct dget_def
      split: if_splits pyval.splits option.splits)

lemma cached_lookup_hit:
  assumes "user_cache w k = Some \<lparr>entry_data = Some a, entry_timestamp = t, entry_ttl = default_ttl\<rparr>"
    and "t' - t < default_ttl"
  shows "fst (cached_lookup lt ident k fetch t' ttl_arg w) = Some a"
    and "store_log (snd (cached_lookup lt ident k fetch t' ttl_arg w)) = store_log w"
    and "user_cache (snd (cached_lookup lt ident k fetch t' ttl_arg w)) = user_cache w"
    and "heap (snd (cached_lookup lt ident k fetch t' ttl_arg w)) = heap w"
  using assms by (simp_all add: cached_lookup_def is_cache_valid_def)

text \<open>
  C9, as the code has it. After \<open>cache_user\<close> has put a record, and while the entry is
  younger than its time to live, a lookup by the record's id, by its email (in any
  letter case) or by its Entra object id returns that record from the cache, with no
  round trip to the store. \<open>invalidate_user_cache\<close> deletes the entry of the one key it
  is given and no other: after the record has been invalidated under its email, the
  lookups by id and by Entra object id still return it from the cache.
\<close>

theorem cache_user_serves_every_key:
  assumes put: "cache_user digest t a w = (None, w')"
    and fresh: "t' - t < default_ttl"
  shows
    "(\<forall>i. (heap w a) ''id'' = Some (VStr i) \<and> i \<noteq> [] \<longrightarrow>
        fst (cached_get_user_by_id digest i t' ttl_arg w') = Some a
          \<and> store_log (snd (cached_get_user_by_id digest i t' ttl_arg w')) = store_log w')
     \<and> (\<forall>e e'. (heap w a) ''email'' = Some (VStr e) \<and> e \<noteq> [] \<and> lower e' = lower e \<longrightarrow>
        fst (cached_get_user_by_email digest e' t' ttl_arg w') = Some a
          \<and> store_log (snd (cached_get_user_by_email digest e' t' ttl_arg w')) = store_log w')
     \<and> (\<forall>oid. (heap w a) ''entra_oid'' = Some (VStr oid) \<and> oid \<noteq> [] \<longrightarrow>
        fst (cached_get_user_by_entra_oid digest oid t' ttl_arg w') = Some a
          \<and> store_log (snd (cached_get_user_by_entra_oid digest oid t' ttl_arg w')) = store_log w')
     \<and> (\<forall>identifier lookup_type k.
          user_cache (invalidate_user_cache digest identifier lookup_type w') k
            = (if k = get_cache_key digest lookup_type identifier then None else user_cache w' k))
     \<and> (\<forall>identifier i. (heap w a) ''id'' = Some (VStr i) \<and> i \<noteq> [] \<longrightarrow>
          fst (cached_get_user_by_id digest i t' ttl_arg
                 (invalidate_user_cache digest identifier ''email'' w')) = Some a)
     \<and> (\<forall>identifier oid. (heap w a) ''entra_oid'' = Some (VStr oid) \<and> oid \<noteq> [] \<longrightarrow>
          fst (cached_get_user_by_entra_oid digest oid t' ttl_arg
                 (invalidate_user_cache digest identifier ''email'' w')) = Some a)"
proof -
  note ent = cache_user_entries [OF put]
  have by_id: "user_cache w' (get_cache_key digest ''user_id'' (VStr i))
        = Some \<lparr>entry_data = Some a, entry_timestamp = t, entry_ttl = default_ttl\<rparr>"
    if "(heap w a) ''id'' = Some (VStr i) \<and> i \<noteq> []" for i
    using ent(1) that by (simp add: dget_def)
  have by_email: "user_cache w' (get_cache_key digest ''email'' (VStr (lower e')))
        = Some \<lparr>entry_data = Some a, entry_timestamp = t, entry_ttl = default_ttl\<rparr>"
    if "(heap w a) ''email'' = Some (VStr e) \<and> e \<noteq> [] \<and> lower e' = lower e" for e e'
    using ent(2) that by (simp add: dget_def)
  have by_oid: "user_cache w' (get_cache_key digest ''entra_oid'' (VStr oid))
        = Some \<lparr>entry_data = Some a, entry_timestamp = t, entry_ttl = default_ttl\<rparr>"
    if "(heap w a) ''entra_oid'' = Some (VStr oid) \<and> oid \<noteq> []" for oid
    using ent(3) that by (simp add: dget_def)
  have c1: "\<forall>i. (heap w a) ''id'' = Some (VStr i) \<and> i \<noteq> [] \<longrightarrow>
        fst (cached_get_user_by_id digest i t' ttl_arg w') = Some a
          \<and> store_log (snd (cached_get_user_by_id digest i t' ttl_arg w')) = store_log w'"
    using cached_lookup_hit(1,2) [OF by_id fresh]
    by (simp add: cached_get_user_by_id_def)
  have c2: "\<forall>e e'. (heap w a) ''email'' = Some (VStr e) \<and> e \<noteq> [] \<and> lower e' = lower e \<longrightarrow>
        fst (cached_get_user_by_email digest e' t' ttl_arg w') = Some a
          \<and> store_log (snd (cached_get_user_by_email digest e' t' ttl_arg w')) = store_log w'"
    using cached_lookup_hit(1,2) [OF by_email fresh]
    by (simp add: cached_get_user_by_email_def)
  have c3: "\<forall>oid. (heap w a) ''entra_oid'' = Some (VStr oid) \<and> oid \<noteq> [] \<longrightarrow>
        fst (cached_get_user_by_entra_oid digest oid t' ttl_arg w') = Some a
          \<and> store_log (snd (cached_get_user_by_entra_oid digest oid t' ttl_arg w')) = store_log w'"
    using cached_lookup_hit(1,2) [OF by_oid fresh]
    by (simp add: cached_get_user_by_entra_oid_def)
  have c4: "\<forall>identifier lookup_type k.
          user_cache (invalidate_user_cache digest identifier lookup_type w') k
            = (if k = get_cache_key digest lookup_type identifier then None else user_cache w' k)"
    by (simp add: invalidate_user_cache_def)
  have c5: "\<forall>identifier i. (heap w a) ''id'' = Some (VStr i) \<and> i \<noteq> [] \<longrightarrow>
          fst (cached_get_user_by_id digest i t' ttl_arg
                 (invalidate_user_cache digest identifier ''email'' w')) = Some a"
  proof (intro allI impI)
    fix ident i assume h: "(heap w a) ''id'' = Some (VStr i) \<and> i \<noteq> []"
    have "user_cache (invalidate_user_cache digest ident ''email'' w')
            (get_cache_key digest ''user_id'' (VStr i))
          = Some \<lparr>entry_data = Some a, entry_timestamp = t, entry_ttl = default_ttl\<rparr>"
      using by_id [OF h] by (simp add: invalidate_user_cache_def key_distinct)
    from cached_lookup_hit(1) [OF this fresh]
    show "fst (cached_get_user_by_id digest i t' ttl_arg
                 (invalidate_user_cache digest ident ''email'' w')) = Some a"
      by (simp add: cached_get_user_by_id_def)
  qed
  have c6: "\<forall>identifier oid. (heap w a) ''entra_oid'' = Some (VStr oid) \<and> oid \<noteq> [] \<longrightarrow>
          fst (cached_get_user_by_entra_oid digest oid t' ttl_arg
                 (invalidate_user_cache digest identifier ''email'' w')) = Some a"
  proof (intro allI impI)
    fix ident oid assume h: "(heap w a) ''entra_oid'' = Some (VStr oid) \<and> oid \<noteq> []"
    have "user_cache (invalidate_user_cache digest ident ''email'' w')
            (get_cache_key digest ''entra_oid'' (VStr oid))
          = Some \<lparr>entry_data = Some a, entry_timestamp = t, entry_ttl = default_ttl\<rparr>"
      using by_oid [OF h] by (simp add: invalidate_user_cache_def key_distinct)
    from cached_lookup_hit(1) [OF this fresh]
    show "fst (cached_get_user_by_entra_oid digest oid t' ttl_arg
                 (invalidate_user_cache digest ident ''email'' w')) = Some a"
      by (simp add: cached_get_user_by_entra_oid_def)
  qed
  from c1 c2 c3 c4 c5 c6 show ?thesis by blast
qed

theorem cache_user_serves_every_key_witness:
  "fst (cache_user toy_digest 1000 0 world0) = None
   \<and> (1100::int) - 1000 < default_ttl
   \<and> heap world0 0 = alice
   \<and> fst (cached_get_user_by_id toy_digest ''u1'' 1100 None
            (snd (cache_user toy_digest 1000 0 world0))) = Some 0
   \<and> fst (cached_get_user_by_email toy_digest ''A@B.com'' 1100 None
            (snd (cache_user toy_digest 1000 0 world0))) = Some 0
   \<and> fst (cached_get_user_by_entra_oid toy_digest ''abc123'' 1100 None
            (snd (cache_user toy_digest 1000 0 world0))) = Some 0
   \<and> fst (cached_get_user_by_id toy_digest ''u1'' 1100 None
            (invalidate_user_cache toy_digest (VStr ''a@b.com'') ''email''
               (snd (cache_user toy_digest 1000 0 world0)))) = Some 0"
proof -
  have f: "fst (cache_user toy_digest 1000 0 world0) = None"
    by (simp add: cache_user_def world0_def alice_def dget_def Let_def)
  then have p: "cache_user toy_digest 1000 0 world0
                  = (None, snd (cache_user toy_digest 1000 0 world0))"
    by (metis prod.collapse)
  have fr: "(1100::int) - 1000 < default_ttl" by (simp add: default_ttl_def)
  have h: "heap world0 0 = alice" by (simp add: world0_def)
  have i: "(heap world0 0) ''id'' = Some (VStr ''u1'') \<and> ''u1'' \<noteq> []"
    by (simp add: world0_def alice_def)
  have e: "(heap world0 0) ''email'' = Some (VStr ''a@b.com'') \<and> ''a@b.com'' \<noteq> []
            \<and> lower ''A@B.com'' = lower ''a@b.com''"
    by (simp add: world0_def alice_def lower_def lower_chr_def)
  have oid: "(heap world0 0) ''entra_oid'' = Some (VStr ''abc123'') \<and> ''abc123'' \<noteq> []"
    by (simp add: world0_def alice_def)
  note T = cache_user_serves_every_key [OF p fr, of None]
  from T i have c1: "fst (cached_get_user_by_id toy_digest ''u1'' 1100 None
            (snd (cache_user toy_digest 1000 0 world0))) = Some 0" by blast
  from T e have c2: "fst (cached_get_user_by_email toy_digest ''A@B.com'' 1100 None
            (snd (cache_user toy_digest 1000 0 world0))) = Some 0" by blast
  from T oid have c3: "fst (cached_get_user_by_entra_oid toy_digest ''abc123'' 1100 None
            (snd (cache_user toy_digest 1000 0 world0))) = Some 0" by blast
  from T i have c4: "fst (cached_get_user_by_id toy_digest ''u1'' 1100 None
            (invalidate_user_cache toy_digest (VStr ''a@b.com'') ''email''
               (snd (cache_user toy_digest 1000 0 world0)))) = Some 0" by blast
  from f fr h c1 c2 c3 c4 show ?thesis by blast
qed

text \<open>
  C9 as stated fails in its second half. The record of \<open>alice\<close> is put; it is then
  invalidated under its email; the lookups by id and by Entra object id that follow
  are still served that record from the cache, with no round trip to the store, while
  the lookup by email misses and goes to the store.
\<close>

theorem invalidate_one_key_counterexample:
  "fst (cached_get_user_by_id toy_digest ''u1'' 1001 None
          (invalidate_user_cache toy_digest (VStr ''a@b.com'') ''email''
             (snd (cache_user toy_digest 1000 0 world0)))) = Some 0
   \<and> store_log (snd (cached_get_user_by_id toy_digest ''u1'' 1001 None
          (invalidate_user_cache toy_digest (VStr ''a@b.com'') ''email''
             (snd (cache_user toy_digest 1000 0 world0))))) = []
   \<and> fst (cached_get_user_by_entra_oid toy_digest ''abc123'' 1001 None
          (invalidate_user_cache toy_digest (VStr ''a@b.com'') ''email''
             (snd (cache_user toy_digest 1000 0 world0)))) = Some 0
   \<and> store_log (snd (cached_get_user_by_email toy_digest ''a@b.com'' 1001 None
          (invalidate_user_cache toy_digest (VStr ''a@b.com'') ''email''
             (snd (cache_user toy_digest 1000 0 world0))))) = [QueryEmail ''a@b.com'']"
  by (simp add: cached_get_user_by_id_def cached_get_user_by_entra_oid_def
      cached_get_user_by_email_def cached_lookup_def invalidate_user_cache_def
      cache_user_def world0_def alice_def dget_def Let_def get_cache_key_def toy_digest_def
      is_cache_valid_def should_background_refresh_def default_ttl_def
      fetch_user_by_email_def db_get_user_by_email_def get_user_by_email_def
      first_or_none_def is_user_def alloc_def lower_def lower_chr_def strip_def is_space_def
      ttl_or_default_def)



section \<open>Properties of token verification\<close>

text \<open>
  C7 on the code. The token's key id is not in the cached key set, which is still
  valid. \<open>verify_token\<close> resets the time stamp and calls \<open>_fetch_jwks_with_cache\<close> once
  more, which makes one request to the provider (the clock is past the first hour of
  1970) and no further one. When the key id is not in the refetched set either (or the
  request fails and the old set is served), the body raises the 401
  \<open>HTTPException\<close> "Unable to find appropriate key"; that exception is raised inside
  the \<open>try\<close>, the clause \<open>except Exception\<close> catches it, and what \<open>verify_token\<close> raises
  is \<open>HTTPException(500, "Internal authentication error")\<close>.
\<close>

theorem verify_token_unknown_kid_raises_500:
  assumes "kid \<noteq> []"
    and "jwks_truthy (jwks_cache st)"
    and "t1 - jwks_cache_timestamp st < jwks_cache_ttl"
    and "find_key kid (jwks_cache st) = None"
    and "jwks_cache_ttl \<le> t2"
    and "\<forall>j. provider (fetches st) = Inr j \<longrightarrow> find_key kid j = None"
  shows "fst (verify_token_body provider (Inr (Some kid)) decode t1 t2 st)
           = Inl (HTTPException 401
                   (''Unable to find appropriate key for token validation (kid: '' @ kid @ '')''))
         \<and> fst (verify_token provider (Inr (Some kid)) decode t1 t2 st)
           = Inl (HTTPException 500 ''Internal authentication error'')
         \<and> fetches (snd (verify_token provider (Inr (Some kid)) decode t1 t2 st))
           = Suc (fetches st)"
proof (cases "provider (fetches st)")
  case (Inl e)
  with assms show ?thesis
    by (simp add: verify_token_def verify_token_body_def fetch_jwks_with_cache_def)
next
  case (Inr j)
  with assms have "find_key kid j = None" by simp
  with Inr assms show ?thesis
    by (simp add: verify_token_def verify_token_body_def fetch_jwks_with_cache_def)
qed

theorem verify_token_unknown_kid_raises_500_witness:
  "''k2'' \<noteq> [] \<and> jwks_truthy (jwks_cache key_state1)
   \<and> 1700000100 - jwks_cache_timestamp key_state1 < jwks_cache_ttl
   \<and> find_key ''k2'' (jwks_cache key_state1) = None
   \<and> jwks_cache_ttl \<le> 1700000100
   \<and> find_key ''k2'' (Doc (Some [key1])) = None
   \<and> fst (verify_token_body provider1 (Inr (Some ''k2'')) decode_ok 1700000100 1700000100 key_state1)
       = Inl (HTTPException 401 ''Unable to find appropriate key for token validation (kid: k2)'')
   \<and> fst (verify_token provider1 (Inr (Some ''k2'')) decode_ok 1700000100 1700000100 key_state1)
       = Inl (HTTPException 500 ''Internal authentication error'')
   \<and> fetches (snd (verify_token provider1 (Inr (Some ''k2'')) decode_ok 1700000100 1700000100
                     key_state1)) = 2"
proof -
  have h1: "''k2'' \<noteq> []" by simp
  have h2: "jwks_truthy (jwks_cache key_state1)"
    by (simp add: key_state1_def jwks_truthy_def)
  have h3: "1700000100 - jwks_cache_timestamp key_state1 < jwks_cache_ttl"
    by (simp add: key_state1_def jwks_cache_ttl_def)
  have h4: "find_key ''k2'' (jwks_cache key_state1) = None"
    by (simp add: key_state1_def find_key_def jwks_keys_def key1_def dget_def)
  have h5: "jwks_cache_ttl \<le> 1700000100" by (simp add: jwks_cache_ttl_def)
  have h6': "find_key ''k2'' (Doc (Some [key1])) = None"
    by (simp add: find_key_def jwks_keys_def key1_def dget_def)
  then have h6: "\<forall>j. provider1 (fetches key_state1) = Inr j \<longrightarrow> find_key ''k2'' j = None"
    by (simp add: provider1_def)
  note T = verify_token_unknown_kid_raises_500
    [where kid = "''k2''" and st = key_state1 and ?t1.0 = 1700000100 and ?t2.0 = 1700000100
       and provider = provider1 and decode = decode_ok, OF h1 h2 h3 h4 h5 h6]
  have f: "Suc (fetches key_state1) = 2" by (simp add: key_state1_def)
  from T f h1 h2 h3 h4 h5 h6' show ?thesis by simp
qed

section \<open>Properties of the resolvers\<close>

lemmas eval_defs =
  get_current_user_cached_def cached_entra_branch_def cached_legacy_branch_def
  cached_create_branch_def cached_found_update_def legacy_roles_update_def
  get_me_def me_entra_branch_def me_legacy_branch_def me_final_update_def
  user_token_def token_email_def opt_or_def opt_truthy_def is_app_only_def token_app_id_def
  cached_get_user_by_entra_oid_def cached_get_user_by_email_def cached_lookup_def
  fetch_user_by_entra_oid_def fetch_user_by_email_def db_get_user_by_entra_oid_def
  db_get_user_by_email_def get_user_by_entra_oid_def get_user_by_email_def
  is_user_def first_or_none_def alloc_def found_def set_obj_def
  get_cache_key_def toy_digest_def is_cache_valid_def should_background_refresh_def
  ttl_or_default_def default_ttl_def
  lower_def lower_chr_def strip_def is_space_def roles_val_def dget_def dget_default_def
  get_or_create_entra_user_def get_or_create_body_def db_replace_item_def replace_item_def
  replace_doc_def has_id_def

lemmas example_defs =
  world0_def world_legacy_def world_stale_def alice_def legacy_alice_def rq_alice_def
  rq_alice_no_roles_def rq_alice_again_def alice_claims_def no_claims_def

text \<open>
  C6. The verified token has no email or no object id, and it passes the test for an
  application token. Then \<open>get_current_user_cached\<close> returns a new dictionary, the
  identity \<open>app_<appid>\<close> of type \<open>entra_app\<close>, and changes nothing else in the state:
  no round trip to the user store, no write to the container, no write to the user
  record cache. \<open>get_current_user_any\<close>, with Entra enabled, does the same and writes
  the one entry of the authentication result cache, whenever that cache does not serve
  the token: it has no entry for it, or an expired one, or one that holds an empty
  dictionary. When the cache serves the token, the call returns the cached identity
  and leaves the whole state as it is.
\<close>

theorem app_only_token_bypasses_user_store:
  assumes v: "rq_entra rq = Inr payload"
    and nu: "user_token payload = None"
    and app: "is_app_only payload"
  shows "(\<exists>app_id. token_app_id payload = Some app_id \<and> app_id \<noteq> []
            \<and> app_identity payload ''id'' = Some (VStr (''app_'' @ app_id)))
       \<and> app_identity payload ''auth_type'' = Some (VStr ''entra_app'')
       \<and> get_current_user_cached digest rq w
           = (Inr (next_addr w),
              w\<lparr>heap := (heap w)(next_addr w := app_identity payload),
                 next_addr := Suc (next_addr w)\<rparr>)
       \<and> (is_entra_enabled cfg \<and> cfg_entra_service cfg
            \<and> \<not> found w (fst (auth_cache_get (token_digest (rq_token rq)) (rq_now rq) w))
          \<longrightarrow> get_current_user_any digest token_digest cfg rq w
              = (Inr (next_addr w),
                 w\<lparr>heap := (heap w)(next_addr w := app_identity payload),
                    next_addr := Suc (next_addr w),
                    auth_cache := (auth_cache w)(token_digest (rq_token rq) \<mapsto>
                       \<lparr>cached_identity = next_addr w, cached_at = rq_now rq\<rparr>)\<rparr>))
       \<and> (found w (fst (auth_cache_get (token_digest (rq_token rq)) (rq_now rq) w))
          \<longrightarrow> (\<exists>a. get_current_user_any digest token_digest cfg rq w = (Inr a, w)))"
proof (intro conjI impI)
  from app show "\<exists>app_id. token_app_id payload = Some app_id \<and> app_id \<noteq> []
            \<and> app_identity payload ''id'' = Some (VStr (''app_'' @ app_id))"
    by (auto simp: is_app_only_def opt_truthy_def app_identity_def split: option.splits)
  show "app_identity payload ''auth_type'' = Some (VStr ''entra_app'')"
    by (simp add: app_identity_def Let_def)
  from v nu app show "get_current_user_cached digest rq w
           = (Inr (next_addr w),
              w\<lparr>heap := (heap w)(next_addr w := app_identity payload),
                 next_addr := Suc (next_addr w)\<rparr>)"
    by (simp add: get_current_user_cached_def cached_entra_branch_def alloc_def)
next
  let ?h = "token_digest (rq_token rq)"
  assume c: "is_entra_enabled cfg \<and> cfg_entra_service cfg
            \<and> \<not> found w (fst (auth_cache_get ?h (rq_now rq) w))"
  obtain cu w0 where g: "auth_cache_get ?h (rq_now rq) w = (cu, w0)"
    by (cases "auth_cache_get ?h (rq_now rq) w")
  then have w0: "w0 = w \<or> w0 = w\<lparr>auth_cache := (auth_cache w)(?h := None)\<rparr>"
    by (auto simp: auth_cache_get_def split: option.splits if_splits)
  then have h0: "heap w0 = heap w" by auto
  from c g h0 have nf: "\<not> found w0 cu"
    by (auto simp: found_def split: option.splits)
  have b: "any_entra_branch digest ?h rq w0
      = (Inr (next_addr w0),
         w0\<lparr>heap := (heap w0)(next_addr w0 := app_identity payload),
            next_addr := Suc (next_addr w0),
            auth_cache := (auth_cache w0)(?h \<mapsto>
               \<lparr>cached_identity = next_addr w0, cached_at = rq_now rq\<rparr>)\<rparr>)"
    using v nu app by (simp add: any_entra_branch_def alloc_def auth_cache_set_def Let_def)
  have r: "get_current_user_any digest token_digest cfg rq w
      = (Inr (next_addr w0),
         w0\<lparr>heap := (heap w0)(next_addr w0 := app_identity payload),
            next_addr := Suc (next_addr w0),
            auth_cache := (auth_cache w0)(?h \<mapsto>
               \<lparr>cached_identity = next_addr w0, cached_at = rq_now rq\<rparr>)\<rparr>)"
    using c g nf b by (simp add: get_current_user_any_def any_entra_stage_def Let_def)
  from w0 show "get_current_user_any digest token_digest cfg rq w
              = (Inr (next_addr w),
                 w\<lparr>heap := (heap w)(next_addr w := app_identity payload),
                    next_addr := Suc (next_addr w),
                    auth_cache := (auth_cache w)(token_digest (rq_token rq) \<mapsto>
                       \<lparr>cached_identity = next_addr w, cached_at = rq_now rq\<rparr>)\<rparr>)"
  proof
    assume "w0 = w"
    with r show ?thesis by simp
  next
    assume "w0 = w\<lparr>auth_cache := (auth_cache w)(?h := None)\<rparr>"
    with r show ?thesis by simp
  qed
next
  let ?h = "token_digest (rq_token rq)"
  assume f: "found w (fst (auth_cache_get ?h (rq_now rq) w))"
  then obtain a where a: "fst (auth_cache_get ?h (rq_now rq) w) = Some a"
    by (cases "fst (auth_cache_get ?h (rq_now rq) w)") (auto simp: found_def)
  then have g: "auth_cache_get ?h (rq_now rq) w = (Some a, w)"
    by (auto simp: auth_cache_get_def split: option.splits if_splits)
  with f a have "get_current_user_any digest token_digest cfg rq w = (Inr a, w)"
    by (simp add: get_current_user_any_def Let_def)
  then show "\<exists>a. get_current_user_any digest token_digest cfg rq w = (Inr a, w)" by blast
qed

theorem app_only_token_bypasses_user_store_witness:
  "rq_entra rq_app = Inr app_claims \<and> user_token app_claims = None \<and> is_app_only app_claims
   \<and> is_entra_enabled cfg_both \<and> cfg_entra_service cfg_both
   \<and> auth_cache world0 (toy_token_digest (rq_token rq_app)) = None
   \<and> auth_cache world_expired (toy_token_digest (rq_token rq_app))
       = Some \<lparr>cached_identity = 0, cached_at = 100\<rparr>
   \<and> fst (get_current_user_cached toy_digest rq_app world0) = Inr 1
   \<and> heap (snd (get_current_user_cached toy_digest rq_app world0)) 1 ''id''
       = Some (VStr ''app_svc1'')
   \<and> store_log (snd (get_current_user_cached toy_digest rq_app world0)) = []
   \<and> auth_container (snd (get_current_user_cached toy_digest rq_app world0)) = [alice]
   \<and> user_cache (snd (get_current_user_cached toy_digest rq_app world0)) = Map.empty
   \<and> fst (get_current_user_any toy_digest toy_token_digest cfg_both rq_app world0) = Inr 1
   \<and> store_log (snd (get_current_user_any toy_digest toy_token_digest cfg_both rq_app world0)) = []
   \<and> auth_container (snd (get_current_user_any toy_digest toy_token_digest cfg_both rq_app world0))
       = [alice]
   \<and> user_cache (snd (get_current_user_any toy_digest toy_token_digest cfg_both rq_app world0))
       = Map.empty
   \<and> fst (get_current_user_any toy_digest toy_token_digest cfg_both rq_app world_expired) = Inr 1
   \<and> heap (snd (get_current_user_any toy_digest toy_token_digest cfg_both rq_app world_expired))
         1 ''id'' = Some (VStr ''app_svc1'')
   \<and> store_log (snd (get_current_user_any toy_digest toy_token_digest cfg_both rq_app
         world_expired)) = []
   \<and> auth_container (snd (get_current_user_any toy_digest toy_token_digest cfg_both rq_app
         world_expired)) = [alice]
   \<and> user_cache (snd (get_current_user_any toy_digest toy_token_digest cfg_both rq_app
         world_expired)) = Map.empty
   \<and> auth_cache (snd (get_current_user_any toy_digest toy_token_digest cfg_both rq_app
         world_expired)) (toy_token_digest (rq_token rq_app))
       = Some \<lparr>cached_identity = 1, cached_at = 1000\<rparr>
   \<and> snd (get_current_user_any toy_digest toy_token_digest cfg_both rq_app world_served)
       = world_served"
proof -
  have h1: "rq_entra rq_app = Inr app_claims" by (simp add: rq_app_def)
  have h2: "user_token app_claims = None"
    by (simp add: user_token_def token_email_def opt_or_def opt_truthy_def app_claims_def
        no_claims_def)
  have h3: "is_app_only app_claims"
    by (simp add: is_app_only_def token_app_id_def opt_or_def opt_truthy_def app_claims_def
        no_claims_def strip_def is_space_def)
  have h4: "is_entra_enabled cfg_both \<and> cfg_entra_service cfg_both"
    by (simp add: is_entra_enabled_def cfg_both_def)
  have m0: "auth_cache world0 (toy_token_digest (rq_token rq_app)) = None"
    by (simp add: world0_def)
  have me: "auth_cache world_expired (toy_token_digest (rq_token rq_app))
       = Some \<lparr>cached_identity = 0, cached_at = 100\<rparr>"
    by (simp add: world_expired_def world0_def rq_app_def)
  have n0: "\<not> found world0 (fst (auth_cache_get (toy_token_digest (rq_token rq_app))
                 (rq_now rq_app) world0))"
    by (simp add: auth_cache_get_def m0 found_def)
  have ne: "\<not> found world_expired (fst (auth_cache_get (toy_token_digest (rq_token rq_app))
                 (rq_now rq_app) world_expired))"
    using me by (simp add: auth_cache_get_def found_def auth_ttl_seconds_def rq_app_def)
  have fs: "found world_served (fst (auth_cache_get (toy_token_digest (rq_token rq_app))
                 (rq_now rq_app) world_served))"
    by (simp add: auth_cache_get_def world_served_def world0_def found_def auth_ttl_seconds_def
        rq_app_def alice_def)
  note T0 = app_only_token_bypasses_user_store [OF h1 h2 h3, of toy_digest world0
      cfg_both toy_token_digest]
  note Te = app_only_token_bypasses_user_store [OF h1 h2 h3, of toy_digest world_expired
      cfg_both toy_token_digest]
  note Ts = app_only_token_bypasses_user_store [OF h1 h2 h3, of toy_digest world_served
      cfg_both toy_token_digest]
  from T0 have c: "get_current_user_cached toy_digest rq_app world0
           = (Inr (next_addr world0),
              world0\<lparr>heap := (heap world0)(next_addr world0 := app_identity app_claims),
                 next_addr := Suc (next_addr world0)\<rparr>)" by blast
  from T0 h4 n0 have a: "get_current_user_any toy_digest toy_token_digest cfg_both rq_app world0
              = (Inr (next_addr world0),
                 world0\<lparr>heap := (heap world0)(next_addr world0 := app_identity app_claims),
                    next_addr := Suc (next_addr world0),
                    auth_cache := (auth_cache world0)(toy_token_digest (rq_token rq_app) \<mapsto>
                       \<lparr>cached_identity = next_addr world0, cached_at = rq_now rq_app\<rparr>)\<rparr>)"
    by blast
  from Te h4 ne have ae: "get_current_user_any toy_digest toy_token_digest cfg_both rq_app
                 world_expired
              = (Inr (next_addr world_expired),
                 world_expired\<lparr>heap := (heap world_expired)
                       (next_addr world_expired := app_identity app_claims),
                    next_addr := Suc (next_addr world_expired),
                    auth_cache := (auth_cache world_expired)
                       (toy_token_digest (rq_token rq_app) \<mapsto>
                       \<lparr>cached_identity = next_addr world_expired,
                        cached_at = rq_now rq_app\<rparr>)\<rparr>)"
    by blast
  from Ts fs have s: "snd (get_current_user_any toy_digest toy_token_digest cfg_both rq_app
                 world_served) = world_served"
    by auto
  have i: "app_identity app_claims ''id'' = Some (VStr ''app_svc1'')"
    by (simp add: app_identity_def token_app_id_def opt_or_def opt_truthy_def app_claims_def
        no_claims_def Let_def)
  from h1 h2 h3 h4 m0 me i s show ?thesis
    unfolding c a ae by (simp add: world0_def world_expired_def rq_app_def)
qed






lemma query_result_nonempty:
  "get_user_by_email docs e = Some d \<Longrightarrow> dom d \<noteq> {}"
  "get_user_by_entra_oid docs v = Some d \<Longrightarrow> dom d \<noteq> {}"
  by (auto simp: get_user_by_email_def get_user_by_entra_oid_def Let_def is_user_def
      dest!: first_or_none_filter_Some)

















text \<open>
  The second exception at work. The store holds the record of \<open>bob@b.com\<close>, which
  has the role \<open>standard\<close> and no list of roles, and the user record cache holds a
  "no such user" entry for that email, 100 seconds old. The token of that user
  resolves to the stored record without a list of roles. With an empty user record
  cache the same call finds the record through the cached lookup and returns it with
  the roles \<open>["standard"]\<close>.
\<close>

lemma stale_entry_skips_roles_fallback:
  "get_user_by_email (auth_container world_stale_bob) ''bob@b.com'' = Some bob
   \<and> bob ''roles'' = None \<and> bob ''role'' = Some (VStr ''standard'')
   \<and> user_cache world_stale_bob (get_cache_key toy_digest ''email'' (VStr ''bob@b.com''))
       = Some \<lparr>entry_data = None, entry_timestamp = 900, entry_ttl = 900\<rparr>
   \<and> rq_entra rq_bob = Inr bob_claims
   \<and> user_token bob_claims = Some (''bob@b.com'', ''def456'')
   \<and> fst (get_current_user_cached toy_digest rq_bob world_stale_bob) = Inr 0
   \<and> heap (snd (get_current_user_cached toy_digest rq_bob world_stale_bob)) 0 ''roles'' = None
   \<and> \<not> roles_nonempty (heap (snd (get_current_user_cached toy_digest rq_bob world_stale_bob)) 0)
   \<and> fst (get_current_user_cached toy_digest rq_bob
            (world_stale_bob\<lparr>user_cache := Map.empty\<rparr>)) = Inr 0
   \<and> heap (snd (get_current_user_cached toy_digest rq_bob
            (world_stale_bob\<lparr>user_cache := Map.empty\<rparr>))) 0 ''roles''
       = Some (VList [VStr ''standard''])"
  by (simp add: roles_nonempty_def eval_defs example_defs bob_def bob_claims_def rq_bob_def world_stale_bob_def Let_def)

lemma found_updates_preserve_roles:
  assumes "user ''roles'' = Some (VList (r # rs))"
    and "roles = None \<or> roles = Some []"
  shows "cached_found_update oid roles user ''roles'' = user ''roles''"
    and "any_found_update oid (case roles of None \<Rightarrow> [] | Some xs \<Rightarrow> xs) user ''roles''
           = user ''roles''"
  using assms
  by (auto simp: cached_found_update_def any_found_update_def Let_def dget_def)

lemma found_updates_take_token_roles:
  assumes "roles = Some (x # xs)"
  shows "cached_found_update oid roles user ''roles'' = Some (roles_val (x # xs))"
    and "any_found_update oid (x # xs) user ''roles'' = Some (roles_val (x # xs))"
  using assms
  by (auto simp: cached_found_update_def any_found_update_def Let_def roles_val_def)

lemma cache_user_auth_cache: "auth_cache (snd (cache_user digest t a w)) = auth_cache w"
  by (auto simp: cache_user_def Let_def split: pyval.splits)

section \<open>The resolvers at concrete inputs\<close>

text \<open>
  C1 on the code. The routers import \<open>get_current_user_any\<close> from the module after
  its last line has bound the name to \<open>get_current_user_cached\<close>, and that function
  never reads or writes the authentication result cache.
\<close>

lemma cached_lookup_auth_cache:
  "auth_cache (snd (cached_lookup lt ident k (fetch_user_by_entra_oid oid) t ttl_arg w))
     = auth_cache w"
  "auth_cache (snd (cached_lookup lt ident k (fetch_user_by_email email) t ttl_arg w))
     = auth_cache w"
  by (auto simp: cached_lookup_def fetch_user_by_entra_oid_def fetch_user_by_email_def
      db_get_user_by_entra_oid_def db_get_user_by_email_def alloc_def
      split: option.splits if_splits)

lemma create_failed_auth_cache:
  "auth_cache (snd (create_failed email e w)) = auth_cache w"
  by (auto simp: create_failed_def db_get_user_by_email_def alloc_def split: option.splits)

lemma create_entra_user_auth_cache:
  "auth_cache (snd (create_entra_user (cache_user digest t) now_iso stamp email oid roles w))
     = auth_cache w"
proof -
  have c: "auth_cache (snd (cache_user digest t a w')) = auth_cache w'" for a w'
    by (rule cache_user_auth_cache)
  show ?thesis
    unfolding create_entra_user_def db_create_user_def
    by (auto simp: create_failed_auth_cache alloc_def split: sum.splits prod.splits option.splits
        dest: arg_cong [where f = "\<lambda>p. auth_cache (snd p)"] simp: c)
qed


lemma db_replace_item_auth_cache:
  "auth_cache (snd (db_replace_item body w)) = auth_cache w"
  by (auto simp: db_replace_item_def split: sum.splits prod.splits)

lemma get_or_create_body_auth_cache:
  "auth_cache (snd (get_or_create_body (cache_user digest t) now_iso stamp email oid roles w))
     = auth_cache w"
proof -
  have r: "db_replace_item body w1 = (x, w2) \<Longrightarrow> auth_cache w2 = auth_cache w1" for body w1 x w2
    using db_replace_item_auth_cache [of body w1] by simp
  show ?thesis
    unfolding get_or_create_body_def db_get_user_by_email_def db_get_user_by_entra_oid_def
    by (auto simp: create_entra_user_auth_cache alloc_def Let_def
        split: option.splits prod.splits sum.splits pyval.splits if_splits dest: r)
qed

lemma get_or_create_auth_cache:
  "auth_cache (snd (get_or_create_entra_user (cache_user digest t) now_iso stamp email oid roles w))
     = auth_cache w"
  using get_or_create_body_auth_cache [of digest t now_iso stamp email oid roles w]
  by (auto simp: get_or_create_entra_user_def Let_def split: prod.splits)

lemma cached_create_branch_auth_cache:
  "auth_cache (snd (cached_create_branch digest rq email oid roles w)) = auth_cache w"
proof -
  have g: "get_or_create_entra_user (cache_user digest t) i s email oid rs w = (x, w1)
           \<Longrightarrow> auth_cache w1 = auth_cache w" for t i s rs x w1
    using get_or_create_auth_cache [of digest t i s email oid rs w] by simp
  show ?thesis
    by (auto simp: cached_create_branch_def set_obj_def split: prod.splits sum.splits dest: g)
qed

lemma cached_get_auth_cache:
  "auth_cache (snd (cached_get_user_by_entra_oid digest oid t ttl_arg w)) = auth_cache w"
  "auth_cache (snd (cached_get_user_by_email digest email t ttl_arg w)) = auth_cache w"
  by (simp_all add: cached_get_user_by_entra_oid_def cached_get_user_by_email_def
      cached_lookup_auth_cache)

lemma cached_entra_branch_auth_cache:
  "auth_cache (snd (cached_entra_branch digest rq w)) = auth_cache w"
proof -
  have o: "cached_get_user_by_entra_oid digest oid t ta w0 = (x, w1)
           \<Longrightarrow> auth_cache w1 = auth_cache w0" for oid t ta w0 x w1
    using cached_get_auth_cache(1) [of digest oid t ta w0] by simp
  have e: "cached_get_user_by_email digest em t ta w0 = (x, w1)
           \<Longrightarrow> auth_cache w1 = auth_cache w0" for em t ta w0 x w1
    using cached_get_auth_cache(2) [of digest em t ta w0] by simp
  have c: "cached_create_branch digest rq em oid rs w0 = (x, w1)
           \<Longrightarrow> auth_cache w1 = auth_cache w0" for em oid rs w0 x w1
    using cached_create_branch_auth_cache [of digest rq em oid rs w0] by simp
  show ?thesis
    unfolding cached_entra_branch_def
    by (auto simp: alloc_def set_obj_def cached_create_branch_auth_cache
        split: sum.splits option.splits prod.splits if_splits dest!: o e)
qed

lemma cached_legacy_branch_auth_cache:
  "auth_cache (snd (cached_legacy_branch digest rq w)) = auth_cache w"
proof -
  have e: "cached_get_user_by_email digest em t ta w0 = (x, w1)
           \<Longrightarrow> auth_cache w1 = auth_cache w0" for em t ta w0 x w1
    using cached_get_auth_cache(2) [of digest em t ta w0] by simp
  show ?thesis
    unfolding cached_legacy_branch_def
    by (auto simp: set_obj_def split: sum.splits option.splits prod.splits if_splits dest!: e)
qed

lemma cached_resolver_ignores_auth_cache:
  "auth_cache (snd (get_current_user_cached digest rq w)) = auth_cache w"
proof -
  obtain r w1 where b: "cached_entra_branch digest rq w = (r, w1)"
    by (cases "cached_entra_branch digest rq w")
  with cached_entra_branch_auth_cache [of digest rq w] have "auth_cache w1 = auth_cache w" by simp
  with b cached_legacy_branch_auth_cache [of digest rq w1] show ?thesis
    by (cases r) (simp_all add: get_current_user_cached_def)
qed

lemma app_identity_nonempty: "dom (app_identity payload) \<noteq> {}"
  by (simp add: app_identity_def Let_def)

lemma app_identity_not_empty: "app_identity payload = (\<lambda>x. None) \<Longrightarrow> False"
  using app_identity_nonempty [of payload] by simp

lemma any_legacy_branch_cached:
  assumes "any_legacy_branch h rq w = (Inr a, w1)"
  shows "auth_cache w1 h = Some \<lparr>cached_identity = a, cached_at = rq_now rq\<rparr>
         \<and> dom (heap w1 a) \<noteq> {}"
  using assms
  by (auto simp: any_legacy_branch_def db_get_user_by_email_def alloc_def auth_cache_set_def
      split: sum.splits option.splits if_splits prod.splits)

lemma any_entra_branch_cached:
  assumes "any_entra_branch digest h rq w = (Inr a, w1)"
  shows "auth_cache w1 h = Some \<lparr>cached_identity = a, cached_at = rq_now rq\<rparr>
         \<and> dom (heap w1 a) \<noteq> {}"
  using assms
  unfolding any_entra_branch_def
  by (auto simp: Let_def alloc_def auth_cache_set_def set_obj_def
      split: sum.splits option.splits if_splits prod.splits dest: app_identity_not_empty)


lemma any_success_is_cached:
  assumes r: "get_current_user_any digest token_digest cfg rq w = (Inr a, w1)"
  shows "\<exists>e. auth_cache w1 (token_digest (rq_token rq)) = Some e \<and> cached_identity e = a
             \<and> dom (heap w1 a) \<noteq> {}"
proof -
  let ?h = "token_digest (rq_token rq)"
  obtain c w0 where g: "auth_cache_get ?h (rq_now rq) w = (c, w0)"
    by (cases "auth_cache_get ?h (rq_now rq) w")
  show ?thesis
  proof (cases "found w0 c")
    case True
    then obtain a0 where c: "c = Some a0" by (cases c) (auto simp: found_def)
    with r g True have "a = a0" "w1 = w0" by (simp_all add: get_current_user_any_def Let_def)
    moreover from g c have "w0 = w \<and> (\<exists>e. auth_cache w ?h = Some e \<and> cached_identity e = a0)"
      by (auto simp: auth_cache_get_def split: option.splits if_splits)
    ultimately show ?thesis using True c by (auto simp: found_def)
  next
    case False
    obtain s1 w2 where e: "any_entra_stage digest ?h cfg rq w0 = (s1, w2)"
      by (cases "any_entra_stage digest ?h cfg rq w0")
    show ?thesis
    proof (cases s1)
      case (Done x)
      with r g False e have x: "x = Inr a" "w2 = w1"
        by (simp_all add: get_current_user_any_def Let_def)
      with e Done have "any_entra_branch digest ?h rq w0 = (Inr a, w1)"
        by (auto simp: any_entra_stage_def split: if_splits prod.splits sum.splits)
      from any_entra_branch_cached [OF this] show ?thesis by simp
    next
      case (Failed ae)
      obtain s2 w3 where l: "any_legacy_stage ?h cfg rq ae w2 = (s2, w3)"
        by (cases "any_legacy_stage ?h cfg rq ae w2")
      with r g False e Failed have "s2 = Done (Inr a)" "w3 = w1"
        by (auto simp: get_current_user_any_def Let_def split: stage.splits)
      with l have "any_legacy_branch ?h rq w2 = (Inr a, w1)"
        by (auto simp: any_legacy_stage_def split: if_splits prod.splits sum.splits)
      from any_legacy_branch_cached [OF this] show ?thesis by simp
    qed
  qed
qed

text \<open>
  The function that the module defines at first under the name \<open>get_current_user_any\<close>
  does what C1 says: after it has resolved a token, a call with the same token, while
  the entry of the authentication result cache is younger than 300 seconds, returns
  the same dictionary and leaves the state, the log of store calls included, as it is.
\<close>

lemma any_second_call_from_cache:
  assumes first: "get_current_user_any digest token_digest cfg rq w = (Inr a, w1)"
    and same: "rq_token rq' = rq_token rq"
    and within: "\<forall>e. auth_cache w1 (token_digest (rq_token rq)) = Some e
                   \<longrightarrow> rq_now rq' - cached_at e < auth_ttl_seconds"
  shows "get_current_user_any digest token_digest cfg rq' w1 = (Inr a, w1)"
proof -
  from any_success_is_cached [OF first] obtain e where
    e: "auth_cache w1 (token_digest (rq_token rq)) = Some e" "cached_identity e = a"
       "dom (heap w1 a) \<noteq> {}" by blast
  with within have "rq_now rq' - cached_at e < auth_ttl_seconds" by simp
  with e same show ?thesis
    by (simp add: get_current_user_any_def auth_cache_get_def found_def Let_def)
qed

lemma first_or_none_replace:
  assumes "\<forall>d \<in> set docs. \<not> P d" and "P body" and "\<exists>d \<in> set docs. has_id i d"
  shows "first_or_none (filter P (replace_doc i body docs)) = Some body"
  using assms
proof (induction docs)
  case Nil
  then show ?case by simp
next
  case (Cons d ds)
  show ?case
  proof (cases "has_id i d")
    case True
    with Cons.prems show ?thesis by (simp add: replace_doc_def first_or_none_def)
  next
    case False
    with Cons.prems have "\<exists>d \<in> set ds. has_id i d" by auto
    with Cons have "first_or_none (filter P (replace_doc i body ds)) = Some body" by simp
    with False Cons.prems show ?thesis by (simp add: replace_doc_def)
  qed
qed

lemma first_or_none_None: "first_or_none (filter P xs) = None \<Longrightarrow> \<forall>x \<in> set xs. \<not> P x"
  by (cases "filter P xs") (auto simp: first_or_none_def filter_empty_conv)

lemma any_found_update_keeps:
  "any_found_update oid roles user ''id'' = user ''id''"
  "any_found_update oid roles user ''type'' = user ''type''"
  "any_found_update oid roles user ''entra_oid'' = Some (VStr oid)"
  by (simp_all add: any_found_update_def Let_def)

text \<open>
  That function also does what C4 says. The store, in which every document has an id,
  holds a user record under the token's email and none under its object id; the token
  is not in the authentication result cache. The call succeeds, and afterwards the
  lookup by the object id alone returns the record, with its id and with the object id.
\<close>

lemma any_migration_persists:
  assumes ent: "is_entra_enabled cfg" "cfg_entra_service cfg"
    and miss: "auth_cache w (token_digest (rq_token rq)) = None"
    and tok: "rq_entra rq = Inr payload" "user_token payload = Some (email, oid)"
    and no_oid: "get_user_by_entra_oid (auth_container w) (VStr oid) = None"
    and by_email: "get_user_by_email (auth_container w) email = Some user"
    and ids: "\<forall>d \<in> set (auth_container w). d ''id'' \<noteq> None"
  shows "\<exists>a w' d. get_current_user_any digest token_digest cfg rq w = (Inr a, w')
           \<and> get_user_by_entra_oid (auth_container w') (VStr oid) = Some d
           \<and> d ''id'' = user ''id'' \<and> d ''entra_oid'' = Some (VStr oid)
           \<and> heap w' a ''entra_oid'' = Some (VStr oid)"
proof -
  define roles where "roles = (case c_roles payload of None \<Rightarrow> [] | Some rs \<Rightarrow> rs)"
  define body where "body = (any_found_update oid roles user)(''updated_at'' \<mapsto> VStr (rq_iso rq))"
  let ?docs = "auth_container w"
  let ?P = "\<lambda>d. is_user d \<and> d ''entra_oid'' = Some (VStr oid)"
  from by_email have u: "user \<in> set ?docs" "is_user user"
    by (auto simp: get_user_by_email_def Let_def dest!: first_or_none_filter_Some)
  with ids obtain i where i: "user ''id'' = Some i" by auto
  have bi: "body ''id'' = Some i" and bo: "body ''entra_oid'' = Some (VStr oid)"
    and bu: "is_user body"
    using i u(2) by (simp_all add: body_def any_found_update_keeps is_user_def)
  have ex: "\<exists>d \<in> set ?docs. has_id i d" using u(1) i by (auto simp: has_id_def)
  then have up: "upsert_item ?docs body = Inr (body, replace_doc i body ?docs)"
    by (simp add: upsert_item_def bi)
  have nP: "\<forall>d \<in> set ?docs. \<not> ?P d"
    using no_oid by (auto simp: get_user_by_entra_oid_def dest!: first_or_none_None)
  have q: "get_user_by_entra_oid (replace_doc i body ?docs) (VStr oid) = Some body"
    unfolding get_user_by_entra_oid_def
    using nP ex bu bo by (intro first_or_none_replace) simp_all
  define W where "W = auth_cache_set (token_digest (rq_token rq)) (next_addr w) (rq_now rq)
           (snd (alloc (body(''auth_type'' \<mapsto> VStr ''entra''))
              (w\<lparr>store_log := store_log w @ [QueryOid (VStr oid), QueryEmail email],
                 auth_container := replace_doc i body ?docs,
                 store_log := store_log w @ [QueryOid (VStr oid), QueryEmail email,
                    UpdateUser body]\<rparr>)))"
  have b: "any_entra_branch digest (token_digest (rq_token rq)) rq w = (Inr (next_addr w), W)"
    using tok no_oid by_email up
    by (simp add: any_entra_branch_def db_get_user_by_entra_oid_def db_get_user_by_email_def
        db_update_user_def Let_def roles_def[symmetric] body_def[symmetric] alloc_def W_def)
  have r: "get_current_user_any digest token_digest cfg rq w = (Inr (next_addr w), W)"
    using ent miss b
    by (simp add: get_current_user_any_def auth_cache_get_def found_def any_entra_stage_def
        Let_def)
  have c: "get_user_by_entra_oid (auth_container W) (VStr oid) = Some body"
    using q by (simp add: W_def auth_cache_set_def alloc_def)
  have h: "heap W (next_addr w) ''entra_oid'' = Some (VStr oid)"
    using bo by (simp add: W_def auth_cache_set_def alloc_def)
  from r c h bi i bo show ?thesis by auto
qed

lemma world_stale_reachable:
  "(snd (cached_get_user_by_email toy_digest ''a@b.com'' 900 None
           (world_legacy\<lparr>auth_container := []\<rparr>)))
     \<lparr>auth_container := [legacy_alice], store_log := []\<rparr> = world_stale"
  by (simp add: cached_get_user_by_email_def cached_lookup_def fetch_user_by_email_def
      db_get_user_by_email_def get_user_by_email_def first_or_none_def world_legacy_def
      world_stale_def ttl_or_default_def default_ttl_def lower_def lower_chr_def)

text \<open>
  The store holds the record of \<open>a@b.com\<close>; the user record cache holds a "no such
  user" entry for that email, 100 seconds old. The token of that user resolves. The
  call leaves no entry for the token in the authentication result cache. The second
  call with the same token, 10 seconds later, goes through the whole resolution again:
  it queries the user store and returns another dictionary.
\<close>

theorem alias_bypasses_auth_cache:
  "fst (get_current_user_cached toy_digest rq_alice world_stale) = Inr 0
   \<and> auth_cache (snd (get_current_user_cached toy_digest rq_alice world_stale))
        (toy_token_digest (rq_token rq_alice)) = None
   \<and> rq_token rq_alice_again = rq_token rq_alice
   \<and> rq_now rq_alice_again - rq_now rq_alice < auth_ttl_seconds
   \<and> fst (get_current_user_cached toy_digest rq_alice_again
             (snd (get_current_user_cached toy_digest rq_alice world_stale))) = Inr 1
   \<and> store_log (snd (get_current_user_cached toy_digest rq_alice_again
             (snd (get_current_user_cached toy_digest rq_alice world_stale))))
       = store_log (snd (get_current_user_cached toy_digest rq_alice world_stale))
         @ [QueryEmail ''a@b.com'']"
  by (simp add: eval_defs example_defs Let_def auth_ttl_seconds_def)


text \<open>
  C3 on the code. The stored record of the user has the roles \<open>["admin"]\<close>, and the
  token has an empty roles claim. \<open>get_current_user_cached\<close> returns the identity with
  \<open>["admin"]\<close>; \<open>GET /me\<close> returns it with the empty list: its last assignment to
  \<open>roles\<close> is the roles claim of the token, whatever it is.
\<close>

theorem get_me_blanks_roles:
  "get_user_by_entra_oid (auth_container world0) (VStr ''abc123'') = Some alice
   \<and> alice ''roles'' = Some (VList [VStr ''admin''])
   \<and> fst (get_me toy_digest rq_alice_no_roles world0) = Inr 1
   \<and> heap (snd (get_me toy_digest rq_alice_no_roles world0)) 1 ''roles'' = Some (VList [])
   \<and> fst (get_current_user_cached toy_digest rq_alice_no_roles world0) = Inr 1
   \<and> heap (snd (get_current_user_cached toy_digest rq_alice_no_roles world0)) 1 ''roles''
       = Some (VList [VStr ''admin''])"
  by (simp add: eval_defs example_defs Let_def)

text \<open>
  C4 on the code. The store holds the record of \<open>a@b.com\<close> without object id, and the
  token carries that email and the object id \<open>abc123\<close>. \<open>get_current_user_cached\<close>
  returns the record with the object id set, in the dictionary it returns only: it
  makes two queries and no write, the container is as before, and a lookup by
  \<open>abc123\<close> in the store finds nothing.
\<close>

theorem cached_migration_not_persisted:
  "fst (get_current_user_cached toy_digest rq_alice world_legacy) = Inr 0
   \<and> heap (snd (get_current_user_cached toy_digest rq_alice world_legacy)) 0 ''entra_oid''
       = Some (VStr ''abc123'')
   \<and> auth_container (snd (get_current_user_cached toy_digest rq_alice world_legacy))
       = [legacy_alice]
   \<and> legacy_alice ''entra_oid'' = None
   \<and> get_user_by_entra_oid
         (auth_container (snd (get_current_user_cached toy_digest rq_alice world_legacy)))
         (VStr ''abc123'') = None
   \<and> store_log (snd (get_current_user_cached toy_digest rq_alice world_legacy))
       = [QueryOid (VStr ''abc123''), QueryEmail ''a@b.com'']"
  by (simp add: eval_defs example_defs Let_def)

text \<open>
  At the same input \<open>get_current_user_entra\<close> writes the object id to the store and
  then fails with a 401.
\<close>

lemma entra_migration_raises:
  "fst (get_current_user_entra toy_digest rq_alice world_legacy)
     = Inl (HTTPException 401
         (''Invalid Entra ID token or user migration error: '' @ unexpected_keyword))
   \<and> (\<exists>d. get_user_by_entra_oid
             (auth_container (snd (get_current_user_entra toy_digest rq_alice world_legacy)))
             (VStr ''abc123'') = Some d \<and> d ''id'' = Some (VStr ''u1''))"
  by (simp add: get_current_user_entra_def entra_try_def entra_user_token_def entra_email_def
      entra_found_by_email_def any_found_update_def db_update_user_def upsert_item_def
      eval_defs example_defs Let_def)

end
